theory Spec2Isabelle
  imports Complex_Main "HOL-Library.AList" "HOL-Library.List_Lexorder" "HOL-Library.Char_ord"
begin

section \<open>Python values used by both scripts\<close>

text \<open>
  The repository holds two Python scripts: \<^verbatim>\<open>compare.py\<close> (the regression comparator) and
  \<^verbatim>\<open>generate_corpus.py\<close> (the corpus generator). Both are embedded here function by
  function, under the names of the source.

  Modelling conventions:
  \<^item> a Python \<^verbatim>\<open>str\<close> is a \<open>string\<close>; all text the scripts build is ASCII, so
    \<open>length\<close> is Python's \<^verbatim>\<open>len\<close>;
  \<^item> a Python \<^verbatim>\<open>float\<close> is the rational it denotes (\<open>rat\<close>). In \<^verbatim>\<open>compare.py\<close> every
    value read and every arithmetic operation is rounded to the nearest double (\<open>fl\<close>
    below); in \<^verbatim>\<open>generate_corpus.py\<close> the arithmetic is exact, binary rounding is not
    modelled there;
  \<^item> an exception that leaves a function is a value \<open>Inl e\<close> of the result type
    \<open>py_error + 'a\<close>;
  \<^item> a \<^verbatim>\<open>dict\<close> is an association list with distinct keys in insertion order
    (\<open>AList.update\<close> overwrites in place or appends, as Python does).
\<close>

datatype py_error =
    FileNotFoundError
  | JSONDecodeError
  | KeyError
  | ZeroDivisionError
  | ValueError
  | OverflowError
  | RecursionError
  | IndexError

subsection \<open>Text helpers: \<^verbatim>\<open>str(int)\<close>, padding, \<^verbatim>\<open>join\<close>\<close>

definition digit_char :: "nat \<Rightarrow> char" where
  "digit_char d = ''0123456789'' ! (d mod 10)"

fun str_nat :: "nat \<Rightarrow> string" where
  "str_nat n = (if n < 10 then [digit_char n] else str_nat (n div 10) @ [digit_char (n mod 10)])"

declare str_nat.simps [simp del]

definition str_int :: "int \<Rightarrow> string" where
  "str_int i = (if i < 0 then ''-'' @ str_nat (nat (- i)) else str_nat (nat i))"

text \<open>\<^verbatim>\<open>f"{s:<{w}}"\<close> and \<^verbatim>\<open>f"{s:>{w}}"\<close>: pad with spaces, never truncate.\<close>

definition ljust :: "nat \<Rightarrow> string \<Rightarrow> string" where
  "ljust w s = s @ replicate (w - length s) CHR '' ''"

definition rjust :: "nat \<Rightarrow> string \<Rightarrow> string" where
  "rjust w s = replicate (w - length s) CHR '' '' @ s"

fun join :: "string \<Rightarrow> string list \<Rightarrow> string" where
  "join sep [] = []"
| "join sep [x] = x"
| "join sep (x # y # ys) = x @ sep @ join sep (y # ys)"

subsection \<open>Rounding and the text of a float\<close>

text \<open>
  Python rounds to the nearest value and a tie to the even neighbour, in \<^verbatim>\<open>round(x, n)\<close>
  and in the format \<^verbatim>\<open>.1f\<close> alike.
\<close>

definition round_half_even :: "rat \<Rightarrow> int" where
  "round_half_even x =
     (let f = \<lfloor>x\<rfloor>; d = x - of_int f
      in if d < 1 / 2 then f
         else if 1 / 2 < d then f + 1
         else if even f then f else f + 1)"

definition py_round :: "rat \<Rightarrow> nat \<Rightarrow> rat" where
  "py_round x n = of_int (round_half_even (x * 10 ^ n)) / 10 ^ n"

text \<open>
  \<^verbatim>\<open>f"{x:.1f}"\<close> and, with the flag set, \<^verbatim>\<open>f"{x:+.1f}"\<close>: the sign, the integer part, a
  point and one decimal.
\<close>

definition fmt_1f :: "bool \<Rightarrow> rat \<Rightarrow> string" where
  "fmt_1f signed x =
     (let r = nat (round_half_even (\<bar>x\<bar> * 10))
      in (if x < 0 then ''-'' else if signed then ''+'' else '''')
         @ str_nat (r div 10) @ ''.'' @ [digit_char (r mod 10)])"

text \<open>
  \<^verbatim>\<open>str(x)\<close> of a float, for a double that is the nearest one to a short decimal (at most
  15 significant digits, magnitude from \<^verbatim>\<open>1e-4\<close> up to \<^verbatim>\<open>1e16\<close>, or zero), given by that
  decimal: the integer part, a point, and the decimals without trailing zeros (at least
  one). The fuel bounds the decimals at 17. Python prints the shortest digits that read
  back as the same double, which are those of the short decimal; the exponent form it
  uses outside that range is not modelled, and every text of a float stated below is of
  a value in the range.
\<close>

fun frac_digits :: "nat \<Rightarrow> rat \<Rightarrow> string" where
  "frac_digits 0 x = []"
| "frac_digits (Suc k) x =
     (if x = 0 then []
      else let d = \<lfloor>x * 10\<rfloor> in digit_char (nat d) # frac_digits k (x * 10 - of_int d))"

definition str_float :: "rat \<Rightarrow> string" where
  "str_float x =
     (let a = \<bar>x\<bar>; ip = \<lfloor>a\<rfloor>; fr = a - of_int ip
      in (if x < 0 then ''-'' else '''') @ str_nat (nat ip) @ ''.''
         @ (if fr = 0 then ''0'' else frac_digits 17 fr))"

subsection \<open>IEEE doubles\<close>

text \<open>
  \<^verbatim>\<open>compare.py\<close> computes with doubles, and its verdict depends on their rounding. A finite
  double is the rational it denotes, and an operation is the exact operation followed by
  \<open>fl\<close>: rounding to the nearest double, a tie to the even significand (53 bits, with the
  subnormal spacing \<open>2\<^sup>-\<^sup>1\<^sup>0\<^sup>7\<^sup>4\<close> at the bottom). \<open>float_exponent\<close> finds the binary exponent
  by halving or doubling. Infinities and NaN are not modelled: the means and the threshold
  are finite and no operation overflows.
\<close>

fun float_exponent :: "nat \<Rightarrow> rat \<Rightarrow> int \<Rightarrow> int" where
  "float_exponent 0 x e = e"
| "float_exponent (Suc n) x e =
     (if 2 \<le> x then float_exponent n (x / 2) (e + 1)
      else if x < 1 then float_exponent n (x * 2) (e - 1)
      else e)"

definition pow2 :: "int \<Rightarrow> rat" where
  "pow2 k = (if 0 \<le> k then 2 ^ nat k else 1 / 2 ^ nat (- k))"

definition ulp_exponent :: "rat \<Rightarrow> int" where
  "ulp_exponent x = max (float_exponent 1100 \<bar>x\<bar> 0 - 52) (- 1074)"

definition fl :: "rat \<Rightarrow> rat" where
  "fl x =
     (if x = 0 then 0
      else of_int (round_half_even (x / pow2 (ulp_exponent x))) * pow2 (ulp_exponent x))"

definition fsub :: "rat \<Rightarrow> rat \<Rightarrow> rat" where
  "fsub a b = fl (a - b)"

definition fmul :: "rat \<Rightarrow> rat \<Rightarrow> rat" where
  "fmul a b = fl (a * b)"

definition fdiv :: "rat \<Rightarrow> rat \<Rightarrow> rat" where
  "fdiv a b = fl (a / b)"

section \<open>compare.py\<close>

subsection \<open>Loading a hyperfine result file\<close>

text \<open>
  A result file is missing, is not JSON (it then carries the message of the decoder's
  error), has no \<^verbatim>\<open>"results"\<close> key, or holds the list of its result objects; each object
  may lack its \<^verbatim>\<open>"command"\<close> or \<^verbatim>\<open>"mean"\<close> key. A mean is read as the nearest double.
  An error of the loader comes with the text \<^verbatim>\<open>str(e)\<close> that \<^verbatim>\<open>compare\<close> prints: for a
  missing file the message of the operating system with the \<^verbatim>\<open>repr\<close> of the path (the
  path between apostrophes, for a path of printable characters other than the
  apostrophe and the backslash), for a missing key the \<^verbatim>\<open>repr\<close> of the key.
\<close>

datatype json_file =
    NotJson string
  | NoResults
  | Results "(string option \<times> rat option) list"

type_synonym file_system = "string \<Rightarrow> json_file option"

type_synonym results = "(string \<times> rat) list"

fun results_dict ::
  "(string option \<times> rat option) list \<Rightarrow> results \<Rightarrow> (py_error \<times> string) + results"
where
  "results_dict [] d = Inr d"
| "results_dict ((Some c, Some m) # rs) d = results_dict rs (AList.update c (fl m) d)"
| "results_dict ((None, m) # rs) d = Inl (KeyError, [CHR 0x27] @ ''command'' @ [CHR 0x27])"
| "results_dict ((Some c, None) # rs) d = Inl (KeyError, [CHR 0x27] @ ''mean'' @ [CHR 0x27])"

definition load_results :: "file_system \<Rightarrow> string \<Rightarrow> (py_error \<times> string) + results" where
  "load_results fs path =
     (case fs path of
        None \<Rightarrow>
          Inl (FileNotFoundError,
               ''[Errno 2] No such file or directory: '' @ [CHR 0x27] @ path @ [CHR 0x27])
      | Some (NotJson msg) \<Rightarrow> Inl (JSONDecodeError, msg)
      | Some NoResults \<Rightarrow> Inl (KeyError, [CHR 0x27] @ ''results'' @ [CHR 0x27])
      | Some (Results rs) \<Rightarrow> results_dict rs [])"

subsection \<open>The comparison\<close>

text \<open>Lines 49 to 55 of the source: the status text of one common benchmark.\<close>

definition status :: "rat \<Rightarrow> rat \<Rightarrow> string" where
  "status change_pct threshold_pct =
     (if change_pct > threshold_pct then ''REGRESSION (+'' @ fmt_1f False change_pct @ ''%)''
      else if change_pct < - threshold_pct then ''FASTER ('' @ fmt_1f False change_pct @ ''%)''
      else ''OK'')"

definition ms :: "rat \<Rightarrow> string" where
  "ms x = rjust 9 (fmt_1f False (fmul x 1000)) @ ''ms''"

text \<open>Line 47 of the source, in doubles.\<close>

definition change_pct_of :: "rat \<Rightarrow> rat \<Rightarrow> rat" where
  "change_pct_of baseline_mean current_mean =
     fmul (fdiv (fsub current_mean baseline_mean) baseline_mean) 100"

text \<open>
  The loop over \<^verbatim>\<open>sorted(current.items())\<close>. The state is the pair of \<^verbatim>\<open>lines\<close> and
  \<^verbatim>\<open>regressions\<close>; a baseline mean of zero raises \<^verbatim>\<open>ZeroDivisionError\<close>.
\<close>

fun compare_loop ::
  "results \<Rightarrow> rat \<Rightarrow> nat \<Rightarrow> results \<Rightarrow> string list \<times> results \<Rightarrow> py_error + (string list \<times> results)"
where
  "compare_loop baseline threshold_pct w [] st = Inr st"
| "compare_loop baseline threshold_pct w ((name, current_mean) # rest) (lines, regressions) =
     (case map_of baseline name of
        None \<Rightarrow>
          compare_loop baseline threshold_pct w rest
            (lines @ [ljust w name @ ''  '' @ rjust 10 ''N/A'' @ ''  '' @ ms current_mean
                      @ ''  '' @ rjust 10 ''new'' @ ''  --''],
             regressions)
      | Some baseline_mean \<Rightarrow>
          if baseline_mean = 0 then Inl ZeroDivisionError
          else
            let change_pct = change_pct_of baseline_mean current_mean;
                line = ljust w name @ ''  '' @ ms baseline_mean @ ''  '' @ ms current_mean @ ''  ''
                       @ rjust 9 (fmt_1f True change_pct) @ ''%  '' @ status change_pct threshold_pct
            in compare_loop baseline threshold_pct w rest
                 (lines @ [line],
                  if change_pct > threshold_pct then regressions @ [(name, change_pct)]
                  else regressions))"

definition removed_lines :: "results \<Rightarrow> results \<Rightarrow> nat \<Rightarrow> string list" where
  "removed_lines baseline current w =
     map (\<lambda>(name, m). ljust w name @ ''  '' @ ms m @ ''  '' @ rjust 10 ''removed''
                        @ ''  '' @ rjust 10 ''N/A'' @ ''  --'')
       (filter (\<lambda>(name, m). map_of current name = None) baseline)"

definition max_name_len :: "results \<Rightarrow> nat" where
  "max_name_len current = (if current = [] then 20 else Max (set (map (length \<circ> fst) current)))"

text \<open>
  \<^verbatim>\<open>compare\<close> returns the pair \<^verbatim>\<open>(passed, report_lines)\<close>; \<^verbatim>\<open>passed\<close> is \<^verbatim>\<open>None\<close> when a
  file could not be loaded. Only the three load errors are caught.
\<close>

definition compare ::
  "file_system \<Rightarrow> string \<Rightarrow> string \<Rightarrow> rat \<Rightarrow> py_error + (bool option \<times> string list)"
where
  "compare fs baseline_path current_path threshold_pct =
     (case load_results fs baseline_path of
        Inl (e, msg) \<Rightarrow> Inr (None, [''Error loading results: '' @ msg])
      | Inr baseline \<Rightarrow>
     (case load_results fs current_path of
        Inl (e, msg) \<Rightarrow> Inr (None, [''Error loading results: '' @ msg])
      | Inr current \<Rightarrow>
          let w = max_name_len current;
              lines0 = [ljust w ''Benchmark'' @ ''  '' @ rjust 10 ''Baseline'' @ ''  ''
                          @ rjust 10 ''Current'' @ ''  '' @ rjust 10 ''Change'' @ ''  Status'',
                        replicate (w + 50) CHR ''-'']
          in (case compare_loop baseline threshold_pct w (sort_key fst current) (lines0, []) of
                Inl e \<Rightarrow> Inl e
              | Inr (lines1, regressions) \<Rightarrow>
                  let lines2 = lines1 @ removed_lines baseline current w @ ['''']
                  in if regressions \<noteq> [] then
                       Inr (Some False,
                            lines2
                            @ [''FAILED: '' @ str_nat (length regressions)
                               @ '' regression(s) exceeded '' @ str_float threshold_pct
                               @ ''% threshold:'']
                            @ map (\<lambda>(name, pct). ''  - '' @ name @ '': +'' @ fmt_1f False pct @ ''%'')
                                regressions)
                     else
                       Inr (Some True,
                            lines2
                            @ [''PASSED: All benchmarks within '' @ str_float threshold_pct
                               @ ''% threshold.'']))))"

text \<open>
  \<^verbatim>\<open>main\<close>: \<^verbatim>\<open>argparse\<close> reads the threshold as a double (\<^verbatim>\<open>type=float\<close>); the result is the
  printed lines and the exit status. An exception that
  escapes \<^verbatim>\<open>compare\<close> ends the process through the interpreter (a traceback, status 1)
  and is kept as \<open>Inl\<close>.
\<close>

definition main_compare ::
  "file_system \<Rightarrow> string \<Rightarrow> string \<Rightarrow> rat \<Rightarrow> py_error + (string list \<times> nat)"
where
  "main_compare fs baseline current threshold =
     (case compare fs baseline current (fl threshold) of
        Inl e \<Rightarrow> Inl e
      | Inr (passed, lines) \<Rightarrow>
          (case passed of
             None \<Rightarrow> Inr (lines, 2)
           | Some p \<Rightarrow> Inr (lines, if p then 0 else 1)))"

text \<open>
  The file system of the comparator examples: \<^verbatim>\<open>baseline.json\<close> and \<^verbatim>\<open>current.json\<close>
  each hold one result, of the command \<^verbatim>\<open>checkout\<close>, with the given means.
\<close>

definition checkout_fs :: "rat \<Rightarrow> rat \<Rightarrow> file_system" where
  "checkout_fs b c =
     (\<lambda>p. if p = ''baseline.json'' then Some (Results [(Some ''checkout'', Some b)])
          else if p = ''current.json'' then Some (Results [(Some ''checkout'', Some c)])
          else None)"


section \<open>generate_corpus.py\<close>

subsection \<open>The randomness source\<close>

text \<open>
  The script draws all its randomness from the module \<^verbatim>\<open>random\<close>, seeded once. The
  generator's algorithm is not modelled: a state of the source is the tape of the raw
  draws still to come (a tape that has run out keeps giving 0), and each primitive takes
  one draw and reduces it to its range. So every result a primitive can return is the
  result of some state, and no state gives a result outside that range.
  \<^item> \<^verbatim>\<open>random()\<close> is a multiple of \<open>2\<^sup>-\<^sup>5\<^sup>3\<close> in \<open>[0, 1)\<close>;
  \<^item> \<^verbatim>\<open>uniform(a, b)\<close> is \<^verbatim>\<open>a + (b - a) * random()\<close>;
  \<^item> \<^verbatim>\<open>randint(a, b)\<close> is \<^verbatim>\<open>a + _randbelow(b - a + 1)\<close> and raises \<^verbatim>\<open>ValueError\<close> on an
    empty range;
  \<^item> \<^verbatim>\<open>choice(seq)\<close> is \<^verbatim>\<open>seq[_randbelow(len(seq))]\<close>;
  \<^item> \<^verbatim>\<open>sample(population, k)\<close> picks \<open>k\<close> positions without replacement, by the
    library's pool algorithm (the library switches to rejection sampling on a large
    population; the possible results are the same);
  \<^item> \<^verbatim>\<open>choices(population, k=k)\<close> picks \<open>k\<close> times \<^verbatim>\<open>population[floor(random() * n)]\<close>.

  A computation that draws is a function from the state to an error or to its result
  and the state left.
\<close>

type_synonym rng = "nat list"

type_synonym 'a gen = "rng \<Rightarrow> py_error + ('a \<times> rng)"

fun draw :: "rng \<Rightarrow> nat \<times> rng" where
  "draw [] = (0, [])"
| "draw (d # g) = (d, g)"

definition ret :: "'a \<Rightarrow> 'a gen" where
  "ret x g = Inr (x, g)"

definition raise :: "py_error \<Rightarrow> 'a gen" where
  "raise e g = Inl e"

definition bind_gen :: "'a gen \<Rightarrow> ('a \<Rightarrow> 'b gen) \<Rightarrow> 'b gen" where
  "bind_gen m f g = (case m g of Inl e \<Rightarrow> Inl e | Inr (x, g') \<Rightarrow> f x g')"

text \<open>A list comprehension or loop whose body draws: the bodies run in order.\<close>

fun for_each :: "'a list \<Rightarrow> ('a \<Rightarrow> 'b gen) \<Rightarrow> 'b list gen" where
  "for_each [] f = ret []"
| "for_each (x # xs) f = bind_gen (f x) (\<lambda>y. bind_gen (for_each xs f) (\<lambda>ys. ret (y # ys)))"

definition random :: "rat gen" where
  "random g = (case draw g of (d, g') \<Rightarrow> Inr (of_nat (d mod 2 ^ 53) / 2 ^ 53, g'))"

definition uniform :: "rat \<Rightarrow> rat \<Rightarrow> rat gen" where
  "uniform a b = bind_gen random (\<lambda>r. ret (a + (b - a) * r))"

definition randbelow :: "nat \<Rightarrow> nat gen" where
  "randbelow n g = (case draw g of (d, g') \<Rightarrow> Inr (d mod n, g'))"

definition randint :: "int \<Rightarrow> int \<Rightarrow> int gen" where
  "randint a b =
     (if b < a then raise ValueError
      else bind_gen (randbelow (nat (b - a + 1))) (\<lambda>r. ret (a + int r)))"

definition choice :: "'a list \<Rightarrow> 'a gen" where
  "choice seq =
     (if seq = [] then raise IndexError
      else bind_gen (randbelow (length seq)) (\<lambda>i. ret (seq ! i)))"

fun sample_pool :: "'a list \<Rightarrow> nat \<Rightarrow> 'a list gen" where
  "sample_pool pool 0 = ret []"
| "sample_pool pool (Suc k) =
     bind_gen (randbelow (length pool)) (\<lambda>j.
     bind_gen (sample_pool (butlast (pool[j := last pool])) k) (\<lambda>rest.
     ret (pool ! j # rest)))"

definition sample :: "'a list \<Rightarrow> int \<Rightarrow> 'a list gen" where
  "sample population k =
     (if k < 0 \<or> int (length population) < k then raise ValueError
      else sample_pool population (nat k))"

definition choices :: "'a list \<Rightarrow> int \<Rightarrow> 'a list gen" where
  "choices population k =
     for_each (replicate (nat k) ())
       (\<lambda>_. bind_gen random (\<lambda>r. ret (population ! nat \<lfloor>r * of_nat (length population)\<rfloor>)))"

subsection \<open>Python's string methods\<close>

definition is_space :: "char \<Rightarrow> bool" where
  "is_space c = (c \<in> set [CHR '' '', CHR 0x09, CHR 0x0A, CHR 0x0B, CHR 0x0C, CHR 0x0D,
                            CHR 0x1C, CHR 0x1D, CHR 0x1E, CHR 0x1F])"

definition is_digit :: "char \<Rightarrow> bool" where
  "is_digit c = (c \<in> set ''0123456789'')"

text \<open>\<^verbatim>\<open>s.strip()\<close>, \<^verbatim>\<open>s.strip(chars)\<close> and \<^verbatim>\<open>s.rstrip(chars)\<close>.\<close>

definition rstrip_chars :: "string \<Rightarrow> string \<Rightarrow> string" where
  "rstrip_chars chars s = rev (dropWhile (\<lambda>c. c \<in> set chars) (rev s))"

definition strip_chars :: "string \<Rightarrow> string \<Rightarrow> string" where
  "strip_chars chars s = rstrip_chars chars (dropWhile (\<lambda>c. c \<in> set chars) s)"

definition strip :: "string \<Rightarrow> string" where
  "strip s = rev (dropWhile is_space (rev (dropWhile is_space s)))"

text \<open>\<^verbatim>\<open>s.startswith(p)\<close> and \<^verbatim>\<open>sub in s\<close>.\<close>

fun startswith :: "string \<Rightarrow> string \<Rightarrow> bool" where
  "startswith s [] = True"
| "startswith [] (p # ps) = False"
| "startswith (c # s) (p # ps) = (c = p \<and> startswith s ps)"

fun contains :: "string \<Rightarrow> string \<Rightarrow> bool" where
  "contains [] sub = (sub = [])"
| "contains (c # s) sub = (startswith (c # s) sub \<or> contains s sub)"

text \<open>
  \<^verbatim>\<open>s.split(sep)\<close> for a separator of one character: the pieces between the
  occurrences of \<open>sep\<close>; there is always at least one piece.
\<close>

function split :: "char \<Rightarrow> string \<Rightarrow> string list" where
  "split sep s =
     (case dropWhile (\<lambda>c. c \<noteq> sep) s of
        [] \<Rightarrow> [s]
      | _ # rest \<Rightarrow> takeWhile (\<lambda>c. c \<noteq> sep) s # split sep rest)"
  by pat_completeness auto
termination
proof (relation "measure (\<lambda>(sep, s). length s)")
  show "wf (measure (\<lambda>(sep, s). length s))" by simp
next
  fix sep :: char and s x rest
  assume "dropWhile (\<lambda>c. c \<noteq> sep) s = x # rest"
  then have "length (x # rest) \<le> length s"
    by (metis length_dropWhile_le)
  then show "((sep, rest), (sep, s)) \<in> measure (\<lambda>(sep, s). length s)" by simp
qed

declare split.simps [simp del]

text \<open>\<^verbatim>\<open>s.split(sep, 1)[0]\<close>: the text before the first \<open>sep\<close>, or all of \<open>s\<close>.\<close>

fun split_first :: "string \<Rightarrow> string \<Rightarrow> string" where
  "split_first sep [] = []"
| "split_first sep (c # s) = (if startswith (c # s) sep then [] else c # split_first sep s)"

text \<open>\<^verbatim>\<open>s[n:-1]\<close>.\<close>

definition slice_from :: "nat \<Rightarrow> string \<Rightarrow> string" where
  "slice_from n s = butlast (drop n s)"

definition quote :: "string \<Rightarrow> string" where
  "quote s = [CHR 0x22] @ s @ [CHR 0x22]"

subsection \<open>Numbers read from text, and the range pattern\<close>

text \<open>
  \<^verbatim>\<open>float(s)\<close> on a text of digits and points, which is all the range pattern can hand
  it: digits with at most one point and at least one digit give the number, anything
  else raises \<^verbatim>\<open>ValueError\<close>. \<^verbatim>\<open>int(x)\<close> truncates towards zero.
\<close>

definition digit_val :: "char \<Rightarrow> nat" where
  "digit_val c = of_char c - 48"

definition digits_val :: "string \<Rightarrow> nat" where
  "digits_val s = foldl (\<lambda>n c. 10 * n + digit_val c) 0 s"

definition py_float :: "string \<Rightarrow> py_error + rat" where
  "py_float s =
     (let ip = takeWhile is_digit s in
      case dropWhile is_digit s of
        [] \<Rightarrow> if ip = [] then Inl ValueError else Inr (of_nat (digits_val ip))
      | c # fp \<Rightarrow>
          if c = CHR ''.'' \<and> list_all is_digit fp \<and> (ip \<noteq> [] \<or> fp \<noteq> [])
          then Inr (of_nat (digits_val ip) + of_nat (digits_val fp) / 10 ^ length fp)
          else Inl ValueError)"

definition py_int :: "rat \<Rightarrow> int" where
  "py_int x = (if 0 \<le> x then \<lfloor>x\<rfloor> else \<lceil>x\<rceil>)"

text \<open>
  \<^verbatim>\<open>re.search(r'\(\s*([\d.]+)\s*\.\.\s*([\d.]+)\s*\)', t)\<close>: the two groups of the leftmost
  match, if there is one. After an opening parenthesis and white space, the first group
  is tried from the longest run of digits and points down to one character
  (\<open>match_group1\<close>); what follows it must be white space, two points, white space, the
  second group, white space and the closing parenthesis (\<open>match_tail\<close>). The second
  group is always the whole run of digits and points: a shorter one is followed by a
  digit or a point, which neither white space nor the parenthesis matches.
\<close>

definition is_num_char :: "char \<Rightarrow> bool" where
  "is_num_char c = (is_digit c \<or> c = CHR ''.'')"

definition match_tail :: "string \<Rightarrow> string option" where
  "match_tail s =
     (case dropWhile is_space s of
        c1 # c2 # s2 \<Rightarrow>
          if c1 = CHR ''.'' \<and> c2 = CHR ''.'' then
            let s3 = dropWhile is_space s2;
                g2 = takeWhile is_num_char s3
            in if g2 \<noteq> [] \<and> startswith (dropWhile is_space (dropWhile is_num_char s3)) '')''
               then Some g2 else None
          else None
      | _ \<Rightarrow> None)"

fun match_group1 :: "nat \<Rightarrow> string \<Rightarrow> (string \<times> string) option" where
  "match_group1 0 s = None"
| "match_group1 (Suc k) s =
     (case match_tail (drop (Suc k) s) of
        Some g2 \<Rightarrow> Some (take (Suc k) s, g2)
      | None \<Rightarrow> match_group1 k s)"

definition match_range_at :: "string \<Rightarrow> (string \<times> string) option" where
  "match_range_at s =
     (let s1 = dropWhile is_space s in match_group1 (length (takeWhile is_num_char s1)) s1)"

fun re_search_range :: "string \<Rightarrow> (string \<times> string) option" where
  "re_search_range [] = None"
| "re_search_range (c # s) =
     (if c = CHR ''('' then
        (case match_range_at s of Some m \<Rightarrow> Some m | None \<Rightarrow> re_search_range s)
      else re_search_range s)"

subsection \<open>Type generators\<close>

definition simple_type :: "string gen" where
  "simple_type = choice [''String'', ''Integer'', ''Float'', ''Boolean'']"

definition oneof_string_text :: "string list \<Rightarrow> string" where
  "oneof_string_text vals = ''String { x | x in { '' @ join '', '' (map quote vals) @ '' } }''"

definition oneof_integer_text :: "int list \<Rightarrow> string" where
  "oneof_integer_text vals = ''Integer { x | x in { '' @ join '', '' (map str_int (sort vals)) @ '' } }''"

definition oneof_type :: "string \<Rightarrow> string gen" where
  "oneof_type base =
     (if base = ''String'' then
        bind_gen (randint 2 5) (\<lambda>k.
        bind_gen (sample [''active'', ''inactive'', ''pending'', ''archived'', ''draft'', ''published''] k)
          (\<lambda>vals. ret (oneof_string_text vals)))
      else if base = ''Integer'' then
        bind_gen (randint 2 4) (\<lambda>k.
        bind_gen (sample [1 .. 99] k) (\<lambda>vals. ret (oneof_integer_text vals)))
      else simple_type)"

definition float_range_text :: "rat \<Rightarrow> rat \<Rightarrow> string" where
  "float_range_text low high =
     ''Float { x | x in ( '' @ str_float low @ ''..'' @ str_float high @ '' ) }''"

definition integer_range_text :: "int \<Rightarrow> int \<Rightarrow> string" where
  "integer_range_text low high =
     ''Integer { x | x in ( '' @ str_int low @ ''..'' @ str_int high @ '' ) }''"

definition range_type :: "string gen" where
  "range_type =
     bind_gen random (\<lambda>r.
       if r < 1 / 2 then
         bind_gen (uniform 0 50) (\<lambda>x.
         bind_gen (uniform 60 100) (\<lambda>y.
         ret (float_range_text (py_round x 1) (py_round y 1))))
       else
         bind_gen (randint 0 50) (\<lambda>low.
         bind_gen (randint 60 1000) (\<lambda>high.
         ret (integer_range_text low high))))"

function random_type :: "nat \<Rightarrow> bool \<Rightarrow> string gen"
  and collection_type :: "nat \<Rightarrow> string gen"
  and modifier_type :: "nat \<Rightarrow> string gen"
where
  "random_type depth allow_complex =
     (if depth > 2 \<or> \<not> allow_complex then simple_type
      else
        bind_gen random (\<lambda>r.
          if r < 40 / 100 then simple_type
          else if r < 55 / 100 then bind_gen (choice [''String'', ''Integer'']) oneof_type
          else if r < 65 / 100 then range_type
          else if r < 80 / 100 then collection_type depth
          else modifier_type depth))"
| "collection_type depth =
     (if depth > 1 then simple_type
      else
        bind_gen random (\<lambda>r.
          if r < 6 / 10 then
            bind_gen (random_type (depth + 1) False) (\<lambda>inner. ret (''List('' @ inner @ '')''))
          else
            bind_gen (random_type (depth + 1) False) (\<lambda>val_type.
              ret (''Dict(String, '' @ val_type @ '')''))))"
| "modifier_type depth =
     bind_gen (random_type (depth + 1) False) (\<lambda>inner.
     bind_gen random (\<lambda>r.
       if r < 1 / 2 then ret (''Optional('' @ inner @ '')'')
       else if inner = ''String'' then ret (''Defaulted(String, '' @ quote ''default'' @ '')'')
       else if inner = ''Integer'' then ret ''Defaulted(Integer, 0)''
       else if inner = ''Float'' then ret ''Defaulted(Float, 0.0)''
       else if inner = ''Boolean'' then ret ''Defaulted(Boolean, false)''
       else ret (''Optional('' @ inner @ '')'')))"
  by pat_completeness auto
termination
  by (relation "measure (\<lambda>x. case x of
         Inl (depth, allow_complex) \<Rightarrow> (if depth > 2 \<or> \<not> allow_complex then 0 else 2)
       | Inr _ \<Rightarrow> 1)") auto

declare random_type.simps [simp del] collection_type.simps [simp del] modifier_type.simps [simp del]

subsection \<open>The value synthesizer\<close>

text \<open>
  \<^verbatim>\<open>_alias_registry\<close> is a module-level dict from alias names to type texts.
  \<^verbatim>\<open>value_for_type\<close> calls itself, through an alias without any decrease, so its
  recursion is bounded as the interpreter bounds it: the first argument counts the
  frames left, and at none the call raises \<^verbatim>\<open>RecursionError\<close>. The interpreter's limit
  is 1000 frames.
\<close>

type_synonym registry = "(string \<times> string) list"

fun value_for_type_rec :: "nat \<Rightarrow> registry \<Rightarrow> string \<Rightarrow> string gen" where
  "value_for_type_rec 0 reg type_str = raise RecursionError"
| "value_for_type_rec (Suc d) reg type_str =
     (let t = strip type_str in
      if startswith t ''_'' \<and> map_of reg t \<noteq> None then
        value_for_type_rec d reg (the (map_of reg t))
      else if t = ''String'' then
        bind_gen (randint 5 15) (\<lambda>k.
        bind_gen (choices ''abcdefghijklmnopqrstuvwxyz'' k) (\<lambda>cs. ret (quote cs)))
      else if t = ''Integer'' then
        bind_gen (randint 1 10000) (\<lambda>n. ret (str_int n))
      else if t = ''Float'' then
        bind_gen (uniform (1 / 100) 100) (\<lambda>x. ret (str_float (py_round x 2)))
      else if t = ''Boolean'' then
        choice [''true'', ''false'']
      else if t = ''URL'' then
        bind_gen (choices ''abcdefghijklmnopqrstuvwxyz'' 8) (\<lambda>cs.
          ret (quote (''https://example.com/'' @ cs)))
      else if t = ''Percentage'' then
        bind_gen (uniform 0 100) (\<lambda>x. ret (str_float (py_round x 2) @ ''%''))
      else if startswith t ''String { x | x in {'' then
        (let inner = rstrip_chars '' }'' (last (split CHR ''{'' t));
             vals = map (\<lambda>v. strip_chars [CHR 0x22] (strip v)) (split CHR '','' inner)
         in bind_gen (choice vals) (\<lambda>v. ret (quote v)))
      else if startswith t ''Integer { x | x in {'' then
        (let inner = rstrip_chars '' }'' (last (split CHR ''{'' t));
             vals = map strip (split CHR '','' inner)
         in choice vals)
      else if contains t ''x | x in ('' \<and> contains t ''..'' then
        (case re_search_range t of
           None \<Rightarrow> ret ''50''
         | Some (g1, g2) \<Rightarrow>
             (case py_float g1 of
                Inl e \<Rightarrow> raise e
              | Inr low \<Rightarrow>
             (case py_float g2 of
                Inl e \<Rightarrow> raise e
              | Inr high \<Rightarrow>
                  if contains t ''Float'' then
                    bind_gen (uniform low high) (\<lambda>x. ret (str_float (py_round x 2)))
                  else
                    bind_gen (randint (py_int low) (py_int high)) (\<lambda>n. ret (str_int n)))))
      else if startswith t ''List('' then
        (let inner = slice_from 5 t in
         bind_gen (randint 1 4) (\<lambda>count.
         bind_gen (for_each [0 ..< nat count] (\<lambda>_. value_for_type_rec d reg inner)) (\<lambda>vals.
         ret (''['' @ join '', '' vals @ '']''))))
      else if startswith t ''Dict(String, '' then
        (let val_type = slice_from 13 t in
         bind_gen (randint 1 3) (\<lambda>count.
         bind_gen (for_each [0 ..< nat count] (\<lambda>i.
                     bind_gen (value_for_type_rec d reg val_type) (\<lambda>val.
                     ret (''key_'' @ str_nat i @ '': '' @ val)))) (\<lambda>pairs.
         ret (''{ '' @ join '', '' pairs @ '' }''))))
      else if startswith t ''Optional('' then
        value_for_type_rec d reg (slice_from 9 t)
      else if startswith t ''Defaulted('' then
        value_for_type_rec d reg (split_first '', '' (slice_from 10 t))
      else ret (quote ''fallback_value''))"

definition value_for_type :: "registry \<Rightarrow> string \<Rightarrow> string gen" where
  "value_for_type reg type_str = value_for_type_rec 1000 reg type_str"

subsection \<open>Expectation files\<close>

text \<open>
  \<^verbatim>\<open>gen_expectation_file\<close> appends, for each expectation, its header, one line for each
  field with a value drawn by \<^verbatim>\<open>value_for_type\<close>, and the two standard lines with the
  threshold and the window drawn last. The draws of one pass of the loop are
  \<open>gen_expectation\<close>, the lines it appends are \<open>expectation_lines\<close>.
\<close>

type_synonym fields = "(string \<times> string) list"

record expectation =
  exp_name :: string
  exp_values :: "(string \<times> string) list"
  threshold :: rat
  window_in_days :: int

definition newline :: string where
  "newline = [CHR 0x0A]"

definition gen_expectation :: "registry \<Rightarrow> string \<Rightarrow> fields \<Rightarrow> string \<Rightarrow> nat \<Rightarrow> expectation gen"
where
  "gen_expectation reg blueprint_name flds team i =
     bind_gen (for_each flds (\<lambda>(fname, ftype).
                 bind_gen (value_for_type reg ftype) (\<lambda>val. ret (fname, val)))) (\<lambda>vals.
     bind_gen (uniform 95 (9999 / 100)) (\<lambda>u.
     bind_gen (choice [7, 30, 90]) (\<lambda>window.
     ret \<lparr>exp_name = team @ ''_'' @ blueprint_name @ ''_'' @ str_nat i,
          exp_values = vals,
          threshold = py_round u 2,
          window_in_days = window\<rparr>)))"

definition expectation_lines :: "expectation \<Rightarrow> string list" where
  "expectation_lines e =
     [''  * '' @ quote (exp_name e) @ '':'', ''    Provides {'']
     @ map (\<lambda>(fname, val). ''      '' @ fname @ '': '' @ val @ '','') (exp_values e)
     @ [''      threshold: '' @ str_float (threshold e) @ '','',
        ''      window_in_days: '' @ str_int (window_in_days e),
        ''    }'']"

definition gen_expectations ::
  "registry \<Rightarrow> string \<Rightarrow> fields \<Rightarrow> nat \<Rightarrow> string \<Rightarrow> expectation list gen"
where
  "gen_expectations reg blueprint_name flds num_expectations team =
     for_each [0 ..< num_expectations] (gen_expectation reg blueprint_name flds team)"

definition gen_expectation_file ::
  "registry \<Rightarrow> string \<Rightarrow> fields \<Rightarrow> nat \<Rightarrow> string \<Rightarrow> string \<Rightarrow> string gen"
where
  "gen_expectation_file reg blueprint_name flds num_expectations org team =
     bind_gen (gen_expectations reg blueprint_name flds num_expectations team) (\<lambda>es.
     ret (join newline ((''Expectations for '' @ quote blueprint_name)
                        # concat (map expectation_lines es)) @ newline))"

subsection \<open>What a drawing computation returns\<close>

text \<open>
  \<open>post m P\<close>: whenever \<open>m\<close> returns, its result satisfies \<open>P\<close>. \<open>yields m P\<close>: from
  every state of the randomness source \<open>m\<close> returns, and its result satisfies \<open>P\<close>.
\<close>

definition post :: "'a gen \<Rightarrow> ('a \<Rightarrow> bool) \<Rightarrow> bool" where
  "post m P = (\<forall>g x g'. m g = Inr (x, g') \<longrightarrow> P x)"

definition yields :: "'a gen \<Rightarrow> ('a \<Rightarrow> bool) \<Rightarrow> bool" where
  "yields m P = (\<forall>g. \<exists>x g'. m g = Inr (x, g') \<and> P x)"

declare value_for_type_rec.simps [simp del]

subsection \<open>The bounds that the generator prints\<close>

text \<open>
  Predicates and a text used to state what \<^verbatim>\<open>range_type\<close> writes: a bound is a text of
  digits with single points inside (\<^verbatim>\<open>str\<close> of an integer that is not negative, or of a
  float with its decimals), and \<open>range_tail\<close> is what follows the base name in a range
  descriptor.
\<close>

fun well_dotted :: "string \<Rightarrow> bool" where
  "well_dotted [] = True"
| "well_dotted [c] = is_digit c"
| "well_dotted (c # d # s) = ((is_digit c \<or> (c = CHR ''.'' \<and> is_digit d)) \<and> well_dotted (d # s))"

text \<open>A bound as the generator writes it: digits, with single points inside.\<close>

definition bound_text :: "string \<Rightarrow> bool" where
  "bound_text A = (A \<noteq> [] \<and> is_digit (hd A) \<and> list_all is_num_char A \<and> well_dotted A)"

definition range_tail :: "string \<Rightarrow> string \<Rightarrow> string" where
  "range_tail A B = '' { x | x in ( '' @ A @ ''..'' @ B @ '' ) }''"

(*DEFS-END*)

section \<open>Properties of compare.py\<close>

subsection \<open>Evaluation rules\<close>

lemma replicate_numeral: "replicate (numeral k) x = x # replicate (pred_numeral k) x"
  by (simp add: numeral_eq_Suc)

lemma floor_rat_numeral_divide:
  "\<lfloor>numeral a / numeral b :: rat\<rfloor> = numeral a div numeral b"
  by (metis floor_divide_of_int_eq of_int_numeral)

lemma floor_rat_neg_numeral_divide:
  "\<lfloor>- (numeral a / numeral b) :: rat\<rfloor> = - numeral a div numeral b"
  by (metis divide_minus_left floor_divide_of_int_eq of_int_neg_numeral of_int_numeral)

lemma float_exponent_numeral:
  "float_exponent (numeral k) x e =
     (if 2 \<le> x then float_exponent (pred_numeral k) (x / 2) (e + 1)
      else if x < 1 then float_exponent (pred_numeral k) (x * 2) (e - 1)
      else e)"
  by (simp add: numeral_eq_Suc)

lemma round_half_even_unfold:
  "round_half_even x =
     (if x - of_int \<lfloor>x\<rfloor> < 1 / 2 then \<lfloor>x\<rfloor>
      else if 1 / 2 < x - of_int \<lfloor>x\<rfloor> then \<lfloor>x\<rfloor> + 1
      else if even \<lfloor>x\<rfloor> then \<lfloor>x\<rfloor> else \<lfloor>x\<rfloor> + 1)"
  by (simp add: round_half_even_def Let_def)

lemma fmt_1f_unfold:
  "fmt_1f signed x =
     (if x < 0 then ''-'' else if signed then ''+'' else [])
     @ str_nat (nat (round_half_even (\<bar>x\<bar> * 10)) div 10) @ ''.''
     @ [digit_char (nat (round_half_even (\<bar>x\<bar> * 10)) mod 10)]"
  by (simp add: fmt_1f_def Let_def)

lemma str_float_unfold:
  "str_float x =
     (if x < 0 then ''-'' else []) @ str_nat (nat \<lfloor>\<bar>x\<bar>\<rfloor>) @ ''.''
     @ (if \<bar>x\<bar> - of_int \<lfloor>\<bar>x\<bar>\<rfloor> = 0 then ''0''
        else frac_digits 17 (\<bar>x\<bar> - of_int \<lfloor>\<bar>x\<bar>\<rfloor>))"
  by (simp add: str_float_def Let_def)

lemma frac_digits_unfold:
  "frac_digits (numeral k) x =
     (if x = 0 then []
      else digit_char (nat \<lfloor>x * 10\<rfloor>)
           # frac_digits (pred_numeral k) (x * 10 - of_int \<lfloor>x * 10\<rfloor>))"
  by (simp add: numeral_eq_Suc Let_def)

lemmas text_eval =
  rjust_def ljust_def fmt_1f_unfold round_half_even_unfold str_nat.simps digit_char_def
  str_float_unfold frac_digits_unfold replicate_numeral floor_rat_numeral_divide

lemmas float_eval =
  fl_def fsub_def fmul_def fdiv_def ulp_exponent_def pow2_def float_exponent_numeral
  round_half_even_unfold floor_rat_numeral_divide floor_rat_neg_numeral_divide

lemmas number_eval =
  float_eval fmt_1f_unfold str_nat.simps digit_char_def str_float_unfold
  rjust_def ljust_def replicate_numeral ms_def status_def change_pct_of_def

subsection \<open>Two files with one common benchmark\<close>

lemma checkout_loads:
  "load_results (checkout_fs b c) ''baseline.json'' = Inr [(''checkout'', fl b)]"
  "load_results (checkout_fs b c) ''current.json'' = Inr [(''checkout'', fl c)]"
  by (simp_all add: load_results_def checkout_fs_def)

lemma compare_loop_single:
  "b \<noteq> 0 \<Longrightarrow>
   compare_loop [(''checkout'', b)] thr 8 [(''checkout'', c)] (lines, [])
     = Inr (lines @ [''checkout  '' @ ms b @ ''  '' @ ms c @ ''  ''
                     @ rjust 9 (fmt_1f True (change_pct_of b c)) @ ''%  ''
                     @ status (change_pct_of b c) thr],
            if thr < change_pct_of b c then [(''checkout'', change_pct_of b c)] else [])"
  by (simp add: Let_def rjust_def ljust_def replicate_numeral)

lemma compare_checkout:
  assumes "fl b \<noteq> 0"
  shows "compare (checkout_fs b c) ''baseline.json'' ''current.json'' thr =
     (if thr < change_pct_of (fl b) (fl c) then
        Inr (Some False,
             [''Benchmark    Baseline     Current      Change  Status'',
              ''----------------------------------------------------------'',
              ''checkout  '' @ ms (fl b) @ ''  '' @ ms (fl c) @ ''  ''
                @ rjust 9 (fmt_1f True (change_pct_of (fl b) (fl c))) @ ''%  ''
                @ status (change_pct_of (fl b) (fl c)) thr,
              [],
              ''FAILED: 1 regression(s) exceeded '' @ str_float thr @ ''% threshold:'',
              ''  - checkout: +'' @ fmt_1f False (change_pct_of (fl b) (fl c)) @ ''%''])
      else
        Inr (Some True,
             [''Benchmark    Baseline     Current      Change  Status'',
              ''----------------------------------------------------------'',
              ''checkout  '' @ ms (fl b) @ ''  '' @ ms (fl c) @ ''  ''
                @ rjust 9 (fmt_1f True (change_pct_of (fl b) (fl c))) @ ''%  ''
                @ status (change_pct_of (fl b) (fl c)) thr,
              [],
              ''PASSED: All benchmarks within '' @ str_float thr @ ''% threshold.'']))"
proof -
  have w: "max_name_len [(''checkout'', fl c)] = 8" by (simp add: max_name_len_def)
  have r: "removed_lines [(''checkout'', fl b)] [(''checkout'', fl c)] 8 = []"
    by (simp add: removed_lines_def)
  have one: "str_nat (Suc 0) = ''1''" by (simp add: str_nat.simps digit_char_def)
  have hdr: "ljust 8 ''Benchmark'' = ''Benchmark''" "rjust 10 ''Baseline'' = ''  Baseline''"
    "rjust 10 ''Current'' = ''   Current''" "rjust 10 ''Change'' = ''    Change''"
    "replicate (8 + 50) CHR ''-'' = ''----------------------------------------------------------''"
    by (simp_all add: ljust_def rjust_def replicate_numeral)
  show ?thesis
    using assms
    by (simp add: compare_def checkout_loads w r hdr compare_loop_single one Let_def
          ljust_def replicate_numeral)
qed

text \<open>
  C4. With the baseline \<^verbatim>\<open>{"checkout": 1.000}\<close> and the current \<^verbatim>\<open>{"checkout": 1.150}\<close>:
  at threshold 10 the report line shows the change \<^verbatim>\<open>+15.0%\<close> with the status
  \<^verbatim>\<open>REGRESSION (+15.0%)\<close>, \<^verbatim>\<open>compare\<close> returns \<^verbatim>\<open>passed = False\<close> and the process exits
  with status 1; at threshold 20 the same files give the status \<^verbatim>\<open>OK\<close>,
  \<^verbatim>\<open>passed = True\<close> and the exit status 0.
\<close>

theorem compare_checkout_example:
  "compare (checkout_fs 1 (115 / 100)) ''baseline.json'' ''current.json'' 10 =
     Inr (Some False,
          [''Benchmark    Baseline     Current      Change  Status'',
           ''----------------------------------------------------------'',
           ''checkout     1000.0ms     1150.0ms      +15.0%  REGRESSION (+15.0%)'',
           [],
           ''FAILED: 1 regression(s) exceeded 10.0% threshold:'',
           ''  - checkout: +15.0%''])
   \<and> (\<exists>out. main_compare (checkout_fs 1 (115 / 100)) ''baseline.json'' ''current.json'' 10
              = Inr (out, 1))
   \<and> compare (checkout_fs 1 (115 / 100)) ''baseline.json'' ''current.json'' 20 =
     Inr (Some True,
          [''Benchmark    Baseline     Current      Change  Status'',
           ''----------------------------------------------------------'',
           ''checkout     1000.0ms     1150.0ms      +15.0%  OK'',
           [],
           ''PASSED: All benchmarks within 20.0% threshold.''])
   \<and> (\<exists>out. main_compare (checkout_fs 1 (115 / 100)) ''baseline.json'' ''current.json'' 20
              = Inr (out, 0))"
proof -
  let ?c = "5179139571476070 / 4503599627370496 :: rat"
  let ?p = "8444249301319675 / 562949953421312 :: rat"
  have f: "fl 1 = 1" "fl (115 / 100) = ?c" "fl 10 = 10" "fl 20 = 20"
    by (simp_all add: float_eval)
  have p: "change_pct_of 1 ?c = ?p" by (simp add: number_eval)
  have cmp: "(10 :: rat) < ?p" "\<not> (20 :: rat) < ?p" by simp_all
  have m: "ms 1 = ''   1000.0ms''" "ms ?c = ''   1150.0ms''" by (simp_all add: number_eval)
  have t: "rjust 9 (fmt_1f True ?p) = ''    +15.0''" "fmt_1f False ?p = ''15.0''"
    "status ?p 10 = ''REGRESSION (+15.0%)''" "status ?p 20 = ''OK''"
    "str_float 10 = ''10.0''" "str_float 20 = ''20.0''"
    by (simp_all add: number_eval)
  have nz: "fl 1 \<noteq> 0" by (simp add: f)
  have c10: "compare (checkout_fs 1 (115 / 100)) ''baseline.json'' ''current.json'' 10 =
     Inr (Some False,
          [''Benchmark    Baseline     Current      Change  Status'',
           ''----------------------------------------------------------'',
           ''checkout     1000.0ms     1150.0ms      +15.0%  REGRESSION (+15.0%)'',
           [],
           ''FAILED: 1 regression(s) exceeded 10.0% threshold:'',
           ''  - checkout: +15.0%''])"
    unfolding compare_checkout [OF nz] f p m t using cmp by simp
  have c20: "compare (checkout_fs 1 (115 / 100)) ''baseline.json'' ''current.json'' 20 =
     Inr (Some True,
          [''Benchmark    Baseline     Current      Change  Status'',
           ''----------------------------------------------------------'',
           ''checkout     1000.0ms     1150.0ms      +15.0%  OK'',
           [],
           ''PASSED: All benchmarks within 20.0% threshold.''])"
    unfolding compare_checkout [OF nz] f p m t using cmp by simp
  from c10 c20 show ?thesis
    by (simp add: main_compare_def f)
qed

subsection \<open>The threshold itself is not a regression\<close>

lemma compare_loop_no_regression:
  assumes "\<forall>(n, c) \<in> set items. \<forall>b. map_of baseline n = Some b \<longrightarrow>
             b \<noteq> 0 \<and> \<not> thr < change_pct_of b c"
  shows "\<exists>lines'. compare_loop baseline thr w items (lines, regs) = Inr (lines', regs)"
  using assms
proof (induction items arbitrary: lines)
  case Nil
  then show ?case by simp
next
  case (Cons it items)
  obtain n c where it: "it = (n, c)" by (cases it)
  from Cons.prems have rest:
    "\<forall>(n, c) \<in> set items. \<forall>b. map_of baseline n = Some b \<longrightarrow>
       b \<noteq> 0 \<and> \<not> thr < change_pct_of b c"
    by simp
  show ?case
  proof (cases "map_of baseline n")
    case None
    with Cons.IH [OF rest] it show ?thesis by simp
  next
    case (Some b)
    with Cons.prems it have "b \<noteq> 0" and "\<not> thr < change_pct_of b c"
      by auto
    with Cons.IH [OF rest] it Some show ?thesis
      by (simp add: Let_def)
  qed
qed

text \<open>
  C10, as the code has it. For a threshold that is not negative, a benchmark present in
  both files whose computed change equals the threshold or its negation gets the report
  line with the status \<^verbatim>\<open>OK\<close> and is not added to the regressions: the loop goes on with
  that line appended and the regressions as they were. A regression needs a change
  strictly greater than the threshold: when both files load, every common benchmark has
  a baseline mean other than zero and none has a change strictly greater than the
  threshold, \<^verbatim>\<open>compare\<close> returns \<^verbatim>\<open>passed = True\<close>, and the process, given that threshold
  (a double, as \<^verbatim>\<open>argparse\<close> delivers it), exits with status 0.
\<close>

theorem compare_threshold_boundary:
  "(0 \<le> thr \<and> map_of baseline n = Some b \<and> b \<noteq> 0
      \<and> (change_pct_of b c = thr \<or> change_pct_of b c = - thr)
    \<longrightarrow> compare_loop baseline thr w ((n, c) # rest) (lines, regs)
        = compare_loop baseline thr w rest
            (lines @ [ljust w n @ ''  '' @ ms b @ ''  '' @ ms c @ ''  ''
                      @ rjust 9 (fmt_1f True (change_pct_of b c)) @ ''%  OK''],
             regs))
   \<and> (load_results fs bp = Inr bl \<and> load_results fs cp = Inr cu
      \<and> (\<forall>(n, c) \<in> set cu. \<forall>b. map_of bl n = Some b \<longrightarrow>
             b \<noteq> 0 \<and> \<not> thr < change_pct_of b c)
    \<longrightarrow> (\<exists>out. compare fs bp cp thr = Inr (Some True, out)
               \<and> (fl thr = thr \<longrightarrow> main_compare fs bp cp thr = Inr (out, 0))))"
proof (intro conjI impI)
  assume a: "0 \<le> thr \<and> map_of baseline n = Some b \<and> b \<noteq> 0
      \<and> (change_pct_of b c = thr \<or> change_pct_of b c = - thr)"
  then have "\<not> thr < change_pct_of b c" "\<not> change_pct_of b c < - thr" by auto
  then have "status (change_pct_of b c) thr = ''OK''" by (simp add: status_def)
  with a \<open>\<not> thr < change_pct_of b c\<close>
  show "compare_loop baseline thr w ((n, c) # rest) (lines, regs)
        = compare_loop baseline thr w rest
            (lines @ [ljust w n @ ''  '' @ ms b @ ''  '' @ ms c @ ''  ''
                      @ rjust 9 (fmt_1f True (change_pct_of b c)) @ ''%  OK''],
             regs)"
    by (simp add: Let_def)
next
  assume a: "load_results fs bp = Inr bl \<and> load_results fs cp = Inr cu
      \<and> (\<forall>(n, c) \<in> set cu. \<forall>b. map_of bl n = Some b \<longrightarrow>
             b \<noteq> 0 \<and> \<not> thr < change_pct_of b c)"
  then have "\<forall>(n, c) \<in> set (sort_key fst cu). \<forall>b. map_of bl n = Some b \<longrightarrow>
               b \<noteq> 0 \<and> \<not> thr < change_pct_of b c"
    by simp
  from compare_loop_no_regression [OF this]
  obtain lines' where
    "compare_loop bl thr (max_name_len cu) (sort_key fst cu)
       ([ljust (max_name_len cu) ''Benchmark'' @ ''  '' @ rjust 10 ''Baseline'' @ ''  ''
            @ rjust 10 ''Current'' @ ''  '' @ rjust 10 ''Change'' @ ''  Status'',
         replicate (max_name_len cu + 50) CHR ''-''], [])
     = Inr (lines', [])"
    by blast
  with a show "\<exists>out. compare fs bp cp thr = Inr (Some True, out)
               \<and> (fl thr = thr \<longrightarrow> main_compare fs bp cp thr = Inr (out, 0))"
    by (simp add: compare_def main_compare_def Let_def)
qed

lemma quarter_change:
  "fl 1 = 1" "fl (5 / 4) = 5 / 4" "fl 25 = 25" "fl (- 25) = - 25"
  "change_pct_of 1 (5 / 4) = 25"
  "ms 1 = ''   1000.0ms''" "ms (5 / 4) = ''   1250.0ms''"
  "rjust 9 (fmt_1f True 25) = ''    +25.0''" "fmt_1f False 25 = ''25.0''"
  "str_float 25 = ''25.0''" "str_float (- 25) = ''-25.0''"
  by (simp_all add: number_eval)

theorem compare_threshold_boundary_witness:
  "change_pct_of 1 (5 / 4) = 25
   \<and> compare_loop [(''checkout'', 1)] 25 8 [(''checkout'', 5 / 4)] ([], [])
       = Inr ([''checkout     1000.0ms     1250.0ms      +25.0%  OK''], [])
   \<and> compare (checkout_fs 1 (5 / 4)) ''baseline.json'' ''current.json'' 25
       = Inr (Some True,
              [''Benchmark    Baseline     Current      Change  Status'',
               ''----------------------------------------------------------'',
               ''checkout     1000.0ms     1250.0ms      +25.0%  OK'',
               [],
               ''PASSED: All benchmarks within 25.0% threshold.''])
   \<and> main_compare (checkout_fs 1 (5 / 4)) ''baseline.json'' ''current.json'' 25
       = Inr ([''Benchmark    Baseline     Current      Change  Status'',
               ''----------------------------------------------------------'',
               ''checkout     1000.0ms     1250.0ms      +25.0%  OK'',
               [],
               ''PASSED: All benchmarks within 25.0% threshold.''], 0)"
proof -
  note q = quarter_change
  have h1: "(0 :: rat) \<le> 25 \<and> map_of [(''checkout'', 1 :: rat)] ''checkout'' = Some 1 \<and> (1 :: rat) \<noteq> 0
      \<and> (change_pct_of 1 (5 / 4) = 25 \<or> change_pct_of 1 (5 / 4) = - 25)"
    by (simp add: q)
  have h2: "load_results (checkout_fs 1 (5 / 4)) ''baseline.json'' = Inr [(''checkout'', 1)]
      \<and> load_results (checkout_fs 1 (5 / 4)) ''current.json'' = Inr [(''checkout'', 5 / 4)]
      \<and> (\<forall>(n, c) \<in> set [(''checkout'', 5 / 4 :: rat)]. \<forall>b. map_of [(''checkout'', 1 :: rat)] n = Some b \<longrightarrow>
             b \<noteq> 0 \<and> \<not> 25 < change_pct_of b c)"
    by (simp add: checkout_loads q)
  have nz: "fl 1 \<noteq> 0" by (simp add: q)
  have st: "status 25 25 = ''OK''" by (simp add: status_def)
  have c: "compare (checkout_fs 1 (5 / 4)) ''baseline.json'' ''current.json'' 25
       = Inr (Some True,
              [''Benchmark    Baseline     Current      Change  Status'',
               ''----------------------------------------------------------'',
               ''checkout     1000.0ms     1250.0ms      +25.0%  OK'',
               [],
               ''PASSED: All benchmarks within 25.0% threshold.''])"
    unfolding compare_checkout [OF nz] q st by simp
  from compare_threshold_boundary
         [of 25 "[(''checkout'', 1)]" "''checkout''" 1 "5 / 4" 8 "[]" "[]" "[]"
             "checkout_fs 1 (5 / 4)" "''baseline.json''" "[(''checkout'', 1)]"
             "''current.json''" "[(''checkout'', 5 / 4)]"]
       h1 h2 c
  show ?thesis
    by (simp add: q ljust_def)
qed

text \<open>
  C10 as stated has no condition on the threshold, on the files or on the baseline
  means. At the threshold \<open>-25\<close> the change from 1.0 to 1.25 is exactly \<open>25\<close>, the negated
  threshold, and is reported as a regression, with the exit status 1; the change from
  2.0 to 1.5 is exactly \<open>-25\<close>, the threshold itself, and is reported as faster (every
  operation on these inputs is exact in doubles). With no file at either path there is
  no common benchmark at all, yet \<^verbatim>\<open>compare\<close> returns \<^verbatim>\<open>passed = None\<close> and the exit status
  is 2. With the baseline mean 0.0 the change does not exist: the division raises
  \<^verbatim>\<open>ZeroDivisionError\<close>, which nothing catches.
\<close>

theorem compare_threshold_boundary_counterexample:
  "change_pct_of 1 (5 / 4) = - (- 25)
   \<and> compare (checkout_fs 1 (5 / 4)) ''baseline.json'' ''current.json'' (- 25)
       = Inr (Some False,
              [''Benchmark    Baseline     Current      Change  Status'',
               ''----------------------------------------------------------'',
               ''checkout     1000.0ms     1250.0ms      +25.0%  REGRESSION (+25.0%)'',
               [],
               ''FAILED: 1 regression(s) exceeded -25.0% threshold:'',
               ''  - checkout: +25.0%''])
   \<and> main_compare (checkout_fs 1 (5 / 4)) ''baseline.json'' ''current.json'' (- 25)
       = Inr ([''Benchmark    Baseline     Current      Change  Status'',
               ''----------------------------------------------------------'',
               ''checkout     1000.0ms     1250.0ms      +25.0%  REGRESSION (+25.0%)'',
               [],
               ''FAILED: 1 regression(s) exceeded -25.0% threshold:'',
               ''  - checkout: +25.0%''], 1)
   \<and> change_pct_of 2 (3 / 2) = - 25
   \<and> status (change_pct_of 2 (3 / 2)) (- 25) = ''FASTER (-25.0%)''
   \<and> compare (\<lambda>p. None) ''baseline.json'' ''current.json'' 10
       = Inr (None,
              [''Error loading results: [Errno 2] No such file or directory: ''
               @ [CHR 0x27] @ ''baseline.json'' @ [CHR 0x27]])
   \<and> main_compare (\<lambda>p. None) ''baseline.json'' ''current.json'' 10
       = Inr ([''Error loading results: [Errno 2] No such file or directory: ''
               @ [CHR 0x27] @ ''baseline.json'' @ [CHR 0x27]], 2)
   \<and> compare (checkout_fs 0 1) ''baseline.json'' ''current.json'' 10 = Inl ZeroDivisionError
   \<and> main_compare (checkout_fs 0 1) ''baseline.json'' ''current.json'' 10
       = Inl ZeroDivisionError"
proof -
  note q = quarter_change
  have nz: "fl 1 \<noteq> 0" by (simp add: q)
  have st: "status 25 (- 25) = ''REGRESSION (+25.0%)''" by (simp add: number_eval)
  have c: "compare (checkout_fs 1 (5 / 4)) ''baseline.json'' ''current.json'' (- 25)
       = Inr (Some False,
              [''Benchmark    Baseline     Current      Change  Status'',
               ''----------------------------------------------------------'',
               ''checkout     1000.0ms     1250.0ms      +25.0%  REGRESSION (+25.0%)'',
               [],
               ''FAILED: 1 regression(s) exceeded -25.0% threshold:'',
               ''  - checkout: +25.0%''])"
    unfolding compare_checkout [OF nz] q st by simp
  have p2: "change_pct_of 2 (3 / 2) = - 25" by (simp add: number_eval)
  have st2: "status (- 25) (- 25) = ''FASTER (-25.0%)''" by (simp add: number_eval)
  have missing: "compare (\<lambda>p. None) ''baseline.json'' ''current.json'' t
       = Inr (None,
              [''Error loading results: [Errno 2] No such file or directory: ''
               @ [CHR 0x27] @ ''baseline.json'' @ [CHR 0x27]])" for t
    by (simp add: compare_def load_results_def)
  have z: "fl 0 = 0" by (simp add: fl_def)
  have zero: "compare (checkout_fs 0 1) ''baseline.json'' ''current.json'' t
       = Inl ZeroDivisionError" for t
    by (simp add: compare_def checkout_loads z Let_def)
  from c p2 st2 missing zero show ?thesis
    by (simp add: main_compare_def q)
qed


section \<open>Properties of generate_corpus.py\<close>

subsection \<open>Rules for drawing computations\<close>

lemma yields_post:
  assumes "yields m P"
  shows "post m P"
proof (unfold post_def, intro allI impI)
  fix g x g'
  assume "m g = Inr (x, g')"
  moreover from assms obtain y g2 where "m g = Inr (y, g2)" and "P y"
    unfolding yields_def by blast
  ultimately show "P x" by simp
qed

lemma post_ret: "P x \<Longrightarrow> post (ret x) P"
  by (simp add: post_def ret_def)

lemma yields_ret: "P x \<Longrightarrow> yields (ret x) P"
  by (simp add: yields_def ret_def)

lemma post_bind:
  assumes "post m P" and "\<And>x. P x \<Longrightarrow> post (f x) Q"
  shows "post (bind_gen m f) Q"
  using assms unfolding post_def bind_gen_def
  by (fastforce split: sum.splits prod.splits)

lemma yields_bind:
  assumes "yields m P" and "\<And>x. P x \<Longrightarrow> yields (f x) Q"
  shows "yields (bind_gen m f) Q"
proof (unfold yields_def, intro allI)
  fix g
  from assms(1) obtain x g1 where m: "m g = Inr (x, g1)" and "P x"
    unfolding yields_def by blast
  from assms(2) [OF \<open>P x\<close>] obtain y g2 where "f x g1 = Inr (y, g2)" and "Q y"
    unfolding yields_def by blast
  with m show "\<exists>y g'. bind_gen m f g = Inr (y, g') \<and> Q y"
    by (simp add: bind_gen_def)
qed

lemma post_weaken: "post m P \<Longrightarrow> (\<And>x. P x \<Longrightarrow> Q x) \<Longrightarrow> post m Q"
  by (auto simp: post_def)

lemma yields_weaken: "yields m P \<Longrightarrow> (\<And>x. P x \<Longrightarrow> Q x) \<Longrightarrow> yields m Q"
  by (simp add: yields_def) blast

lemma post_for_each:
  assumes "\<And>x. x \<in> set xs \<Longrightarrow> post (f x) P"
  shows "post (for_each xs f) (\<lambda>ys. length ys = length xs \<and> (\<forall>y \<in> set ys. P y))"
  using assms
proof (induction xs)
  case Nil
  then show ?case by (simp add: post_ret)
next
  case (Cons x xs)
  have "post (f x) P" using Cons.prems by simp
  moreover have "post (for_each xs f) (\<lambda>ys. length ys = length xs \<and> (\<forall>y \<in> set ys. P y))"
    using Cons by simp
  ultimately show ?case
    by (auto intro!: post_bind [where P = P] post_bind [where P = "\<lambda>ys. length ys = length xs \<and> (\<forall>y \<in> set ys. P y)"] post_ret)
qed

lemma yields_for_each:
  assumes "\<And>x. x \<in> set xs \<Longrightarrow> yields (f x) P"
  shows "yields (for_each xs f) (\<lambda>ys. length ys = length xs \<and> (\<forall>y \<in> set ys. P y))"
  using assms
proof (induction xs)
  case Nil
  then show ?case by (simp add: yields_ret)
next
  case (Cons x xs)
  have "yields (f x) P" using Cons.prems by simp
  moreover have "yields (for_each xs f) (\<lambda>ys. length ys = length xs \<and> (\<forall>y \<in> set ys. P y))"
    using Cons by simp
  ultimately show ?case
    by (auto intro!: yields_bind [where P = P] yields_bind [where P = "\<lambda>ys. length ys = length xs \<and> (\<forall>y \<in> set ys. P y)"] yields_ret)
qed

lemma yields_random: "yields random (\<lambda>r. 0 \<le> r \<and> r < 1)"
proof (unfold yields_def, intro allI)
  fix g
  obtain d g' where d: "draw g = (d, g')" by (cases "draw g")
  have "d mod 2 ^ 53 < 2 ^ 53" by simp
  then have "(of_nat (d mod 2 ^ 53) :: rat) < of_nat (2 ^ 53)"
    by (simp only: of_nat_less_iff)
  then have "(of_nat (d mod 2 ^ 53) :: rat) / 2 ^ 53 < 1" by simp
  moreover have "0 \<le> (of_nat (d mod 2 ^ 53) :: rat) / 2 ^ 53" by simp
  moreover have "random g = Inr (of_nat (d mod 2 ^ 53) / 2 ^ 53, g')"
    using d by (simp add: random_def)
  ultimately show "\<exists>x g'. random g = Inr (x, g') \<and> 0 \<le> x \<and> x < 1" by blast
qed

lemma yields_uniform:
  assumes "a \<le> b"
  shows "yields (uniform a b) (\<lambda>x. a \<le> x \<and> x \<le> b)"
  unfolding uniform_def
proof (rule yields_bind [OF yields_random], rule yields_ret)
  fix r :: rat
  assume r: "0 \<le> r \<and> r < 1"
  with assms have "0 \<le> (b - a) * r" by simp
  moreover from r assms have "(b - a) * r \<le> (b - a) * 1"
    by (intro mult_left_mono) auto
  ultimately show "a \<le> a + (b - a) * r \<and> a + (b - a) * r \<le> b" by simp
qed

lemma yields_randbelow: "0 < n \<Longrightarrow> yields (randbelow n) (\<lambda>r. r < n)"
  by (auto simp: yields_def randbelow_def split: prod.splits)

lemma yields_randint:
  assumes "a \<le> b"
  shows "yields (randint a b) (\<lambda>r. a \<le> r \<and> r \<le> b)"
proof -
  have "yields (randbelow (nat (b - a + 1))) (\<lambda>r. r < nat (b - a + 1))"
    using assms by (intro yields_randbelow) simp
  then show ?thesis
    using assms unfolding randint_def
    by (auto intro!: yields_bind [where P = "\<lambda>r. r < nat (b - a + 1)"] yields_ret)
qed

lemma yields_choice: "seq \<noteq> [] \<Longrightarrow> yields (choice seq) (\<lambda>x. x \<in> set seq)"
  unfolding choice_def
  by (auto intro!: yields_bind [OF yields_randbelow] yields_ret)

lemma round_half_even_ge: "of_int k \<le> x \<Longrightarrow> k \<le> round_half_even x"
proof -
  assume "of_int k \<le> x"
  then have "k \<le> \<lfloor>x\<rfloor>" by (simp add: le_floor_iff)
  then show ?thesis by (simp add: round_half_even_def Let_def)
qed

lemma round_half_even_le: "x \<le> of_int k \<Longrightarrow> round_half_even x \<le> k"
proof -
  assume le: "x \<le> of_int k"
  then have fl: "\<lfloor>x\<rfloor> \<le> k" by (simp add: floor_le_iff)
  show ?thesis
  proof (cases "\<lfloor>x\<rfloor> = k")
    case True
    with le have "x = of_int k" using of_int_floor_le [of x] by simp
    then show ?thesis by (simp add: round_half_even_def)
  next
    case False
    with fl have "\<lfloor>x\<rfloor> + 1 \<le> k" by simp
    then show ?thesis by (simp add: round_half_even_def Let_def)
  qed
qed

lemma py_round_bounds:
  assumes "of_int lo / 10 ^ n \<le> x" and "x \<le> of_int hi / 10 ^ n"
  shows "of_int lo / 10 ^ n \<le> py_round x n \<and> py_round x n \<le> of_int hi / 10 ^ n"
proof -
  have p: "(0::rat) < 10 ^ n" by simp
  from assms(1) have "of_int lo \<le> x * 10 ^ n" by (simp add: pos_divide_le_eq)
  then have 1: "lo \<le> round_half_even (x * 10 ^ n)" by (rule round_half_even_ge)
  from assms(2) have "x * 10 ^ n \<le> of_int hi" by (simp add: pos_le_divide_eq)
  then have 2: "round_half_even (x * 10 ^ n) \<le> hi" by (rule round_half_even_le)
  from 1 2 show ?thesis
    by (simp add: py_round_def divide_le_cancel)
qed

lemma post_gen_expectation:
  "post (gen_expectation reg bn flds team i)
     (\<lambda>e. 95 \<le> threshold e \<and> threshold e \<le> 9999 / 100 \<and> window_in_days e \<in> {7, 30, 90})"
proof -
  have 1: "post (for_each flds (\<lambda>(fname, ftype).
                 bind_gen (value_for_type reg ftype) (\<lambda>val. ret (fname, val)))) (\<lambda>_. True)"
    by (simp add: post_def)
  have 2: "yields (uniform 95 (9999 / 100)) (\<lambda>u. 95 \<le> u \<and> u \<le> 9999 / 100)"
    by (rule yields_uniform) simp
  have 3: "yields (choice [7, 30, 90 :: int]) (\<lambda>w. w \<in> set [7, 30, 90])"
    by (rule yields_choice) simp
  have r: "95 \<le> py_round u 2 \<and> py_round u 2 \<le> 9999 / 100"
    if "95 \<le> u \<and> u \<le> 9999 / 100" for u
    using py_round_bounds [of 9500 2 u 9999] that by simp
  show ?thesis
    unfolding gen_expectation_def
    by (rule post_bind [OF 1], rule post_bind [OF yields_post [OF 2]],
        rule post_bind [OF yields_post [OF 3]], rule post_ret) (use r in auto)
qed

lemma gen_expectations_bounds:
  "post (gen_expectations reg bn flds n team)
     (\<lambda>es. length es = n \<and> (\<forall>e \<in> set es. 95 \<le> threshold e \<and> threshold e \<le> 9999 / 100
                  \<and> window_in_days e \<in> {7, 30, 90}))"
  unfolding gen_expectations_def
  using post_for_each [of "[0 ..< n]" "gen_expectation reg bn flds team", OF post_gen_expectation]
  by simp

lemmas gen_eval =
  bind_gen_def ret_def raise_def random_def uniform_def randbelow_def randint_def choice_def
  py_round_def

subsection \<open>Threshold and window of an expectation\<close>

text \<open>
  C8, as the code has it. Whenever \<^verbatim>\<open>gen_expectation_file\<close> returns, its text is the rendering
  of \<open>n\<close> expectations, and each of them has a threshold in the closed interval from 95.0
  to 99.99 and a window of 7, 30 or 90 days.
\<close>

theorem expectation_threshold_window:
  assumes "gen_expectation_file reg bn flds n org team g = Inr (content, g')"
  shows "\<exists>es. gen_expectations reg bn flds n team g = Inr (es, g')
           \<and> content = join newline ((''Expectations for '' @ quote bn) # concat (map expectation_lines es))
                    @ newline
           \<and> length es = n
           \<and> (\<forall>e \<in> set es. 95 \<le> threshold e \<and> threshold e \<le> 9999 / 100
                  \<and> window_in_days e \<in> {7, 30, 90})"
proof -
  from assms obtain es where
    es: "gen_expectations reg bn flds n team g = Inr (es, g')" and
    tx: "content = join newline ((''Expectations for '' @ quote bn) # concat (map expectation_lines es))
                  @ newline"
    by (auto simp: gen_expectation_file_def bind_gen_def ret_def split: sum.splits)
  from gen_expectations_bounds [of reg bn flds n team] es
  have "length es = n \<and> (\<forall>e \<in> set es. 95 \<le> threshold e \<and> threshold e \<le> 9999 / 100
                  \<and> window_in_days e \<in> {7, 30, 90})"
    unfolding post_def by blast
  with es tx show ?thesis by blast
qed

lemmas expectation_eval =
  gen_expectation_file_def gen_expectations_def gen_expectation_def expectation_lines_def
  quote_def newline_def str_int_def

theorem expectation_threshold_window_witness:
  "gen_expectation_file [] ''checkout_slo'' [] 1 ''acme'' ''platform'' [2 ^ 51, 1]
     = Inr (join newline
              [''Expectations for '' @ quote ''checkout_slo'',
               ''  * '' @ quote ''platform_checkout_slo_0'' @ '':'',
               ''    Provides {'',
               ''      threshold: 96.25,'',
               ''      window_in_days: 30'',
               ''    }''] @ newline, [])
   \<and> gen_expectations [] ''checkout_slo'' [] 1 ''platform'' [2 ^ 51, 1]
     = Inr ([\<lparr>exp_name = ''platform_checkout_slo_0'', exp_values = [],
              threshold = 9625 / 100, window_in_days = 30\<rparr>], [])
   \<and> (95 :: rat) \<le> 9625 / 100 \<and> (9625 / 100 :: rat) \<le> 9999 / 100 \<and> (30 :: int) \<in> {7, 30, 90}"
proof -
  have ev: "gen_expectation_file [] ''checkout_slo'' [] 1 ''acme'' ''platform'' [2 ^ 51, 1]
     = Inr (join newline
              [''Expectations for '' @ quote ''checkout_slo'',
               ''  * '' @ quote ''platform_checkout_slo_0'' @ '':'',
               ''    Provides {'',
               ''      threshold: 96.25,'',
               ''      window_in_days: 30'',
               ''    }''] @ newline, [])"
    by (simp add: expectation_eval gen_eval text_eval)
  have es: "gen_expectations [] ''checkout_slo'' [] 1 ''platform'' [2 ^ 51, 1]
     = Inr ([\<lparr>exp_name = ''platform_checkout_slo_0'', exp_values = [],
              threshold = 9625 / 100, window_in_days = 30\<rparr>], [])"
    by (simp add: expectation_eval gen_eval text_eval)
  from expectation_threshold_window [OF ev] ev es show ?thesis
    by simp
qed

text \<open>
  C8 as stated excludes the threshold 95.0. A draw of zero gives \<^verbatim>\<open>uniform(95.0, 99.99) = 95.0\<close>,
  and the expectation is written with the line \<^verbatim>\<open>threshold: 95.0\<close>.
\<close>

theorem expectation_threshold_counterexample:
  "gen_expectations [] ''checkout_slo'' [] 1 ''platform'' [0, 0]
     = Inr ([\<lparr>exp_name = ''platform_checkout_slo_0'', exp_values = [],
              threshold = 95, window_in_days = 7\<rparr>], [])
   \<and> \<not> 95 < threshold \<lparr>exp_name = ''platform_checkout_slo_0'', exp_values = [],
                       threshold = 95, window_in_days = 7\<rparr>
   \<and> expectation_lines \<lparr>exp_name = ''platform_checkout_slo_0'', exp_values = [],
                         threshold = 95, window_in_days = 7\<rparr>
     = [''  * '' @ quote ''platform_checkout_slo_0'' @ '':'',
        ''    Provides {'',
        ''      threshold: 95.0,'',
        ''      window_in_days: 7'',
        ''    }'']"
  by (simp add: expectation_eval gen_eval text_eval)

subsection \<open>Evaluating the value synthesizer\<close>

lemma value_for_type_rec_numeral:
  "value_for_type_rec (numeral k) reg t = value_for_type_rec (Suc (pred_numeral k)) reg t"
  by (simp add: numeral_eq_Suc)






subsection \<open>Digits\<close>

lemma less_10_cases:
  "(k::nat) < 10 \<Longrightarrow> k = 0 \<or> k = 1 \<or> k = 2 \<or> k = 3 \<or> k = 4 \<or> k = 5 \<or> k = 6 \<or> k = 7
     \<or> k = 8 \<or> k = 9"
  by arith

lemma is_digit_digit_char: "is_digit (digit_char d)"
proof -
  have "d mod 10 < 10" by simp
  from less_10_cases [OF this] show ?thesis
    by (auto simp: is_digit_def digit_char_def)
qed

lemma digit_val_digit_char: "d < 10 \<Longrightarrow> digit_val (digit_char d) = d"
proof -
  assume "d < 10"
  from less_10_cases [OF this] show ?thesis
    by (auto simp: digit_val_def digit_char_def)
qed

lemma str_nat_digits: "list_all is_digit (str_nat n)"
proof (induction n rule: str_nat.induct)
  case (1 n)
  show ?case
  proof (cases "n < 10")
    case True
    then show ?thesis by (subst str_nat.simps) (simp add: is_digit_digit_char)
  next
    case False
    with 1 show ?thesis by (subst str_nat.simps) (simp add: is_digit_digit_char)
  qed
qed

lemma str_nat_not_Nil: "str_nat n \<noteq> []"
  by (subst str_nat.simps) simp

lemma digits_val_snoc: "digits_val (s @ [c]) = 10 * digits_val s + digit_val c"
  by (simp add: digits_val_def)

lemma digits_val_str_nat: "digits_val (str_nat n) = n"
proof (induction n rule: str_nat.induct)
  case (1 n)
  show ?case
  proof (cases "n < 10")
    case True
    then show ?thesis
      by (subst str_nat.simps) (simp add: digits_val_def digit_val_digit_char)
  next
    case False
    with 1 have "digits_val (str_nat (n div 10)) = n div 10" by simp
    with False show ?thesis
      by (subst str_nat.simps) (simp add: digits_val_snoc digit_val_digit_char)
  qed
qed

lemma is_digit_not_space: "is_digit c \<Longrightarrow> \<not> is_space c"
  by (auto simp: is_digit_def is_space_def)

lemma is_digit_not_dot: "is_digit c \<Longrightarrow> c \<noteq> CHR ''.''"
  by (auto simp: is_digit_def)

lemma is_digit_num_char: "is_digit c \<Longrightarrow> is_num_char c"
  by (simp add: is_num_char_def)

lemma py_float_digits:
  assumes "list_all is_digit s" and "s \<noteq> []"
  shows "py_float s = Inr (of_nat (digits_val s))"
proof -
  from assms(1) have tw: "takeWhile is_digit s = s" and dw: "dropWhile is_digit s = []"
    by (simp_all add: list_all_iff)
  show ?thesis
    unfolding py_float_def Let_def tw dw using assms(2) by simp
qed

lemma py_float_str_nat: "py_float (str_nat n) = Inr (of_nat n)"
  by (simp add: py_float_digits str_nat_digits str_nat_not_Nil digits_val_str_nat)

subsection \<open>The range pattern on a generated range text\<close>

lemma match_tail_digit: "is_digit c \<Longrightarrow> match_tail (c # u) = None"
  by (cases u) (auto simp: match_tail_def is_digit_not_space is_digit_not_dot)

lemma match_tail_dot_digit: "is_digit d \<Longrightarrow> match_tail (CHR ''.'' # d # u) = None"
  by (auto simp: match_tail_def is_space_def is_digit_not_dot)

lemma match_tail_well_dotted:
  "well_dotted B \<Longrightarrow> i < length B \<Longrightarrow> match_tail (drop i B @ R) = None"
proof (induction B arbitrary: i rule: well_dotted.induct)
  case 1
  then show ?case by simp
next
  case (2 c)
  then show ?case by (simp add: match_tail_digit)
next
  case (3 c d s)
  show ?case
  proof (cases i)
    case 0
    with 3 show ?thesis by (auto simp: match_tail_digit match_tail_dot_digit)
  next
    case (Suc j)
    with 3 show ?thesis by simp
  qed
qed

lemma digits_well_dotted: "list_all is_digit s \<Longrightarrow> well_dotted s"
  by (induction s rule: well_dotted.induct) auto

lemma match_group1_found:
  assumes "0 < m" and "m \<le> k" and "match_tail (drop m s) = Some g2"
    and "\<And>j. m < j \<Longrightarrow> j \<le> k \<Longrightarrow> match_tail (drop j s) = None"
  shows "match_group1 k s = Some (take m s, g2)"
  using assms(2,4)
proof (induction k)
  case 0
  with assms(1) show ?case by simp
next
  case (Suc k)
  show ?case
  proof (cases "m = Suc k")
    case True
    with assms(3) show ?thesis by simp
  next
    case False
    with Suc.prems(1) have "m \<le> k" "m < Suc k" by simp_all
    with Suc show ?thesis by simp
  qed
qed

lemma takeWhile_all_then: "list_all P B \<Longrightarrow> \<not> P r \<Longrightarrow> takeWhile P (B @ r # R) = B"
  by (induction B) auto

lemma dropWhile_all_then: "list_all P B \<Longrightarrow> \<not> P r \<Longrightarrow> dropWhile P (B @ r # R) = r # R"
  by (induction B) auto

lemma space_not_num_char: "\<not> is_num_char CHR '' ''"
  by (simp add: is_num_char_def is_digit_def)

lemma dot_num_char: "is_num_char CHR ''.''"
  by (simp add: is_num_char_def)

lemma match_tail_bound:
  assumes "bound_text B"
  shows "match_tail (''..'' @ B @ '' ) }'') = Some B"
proof -
  from assms obtain b B' where B: "B = b # B'" and b: "is_digit b"
    by (cases B) (auto simp: bound_text_def)
  from assms have all: "list_all is_num_char B" by (simp add: bound_text_def)
  have 1: "dropWhile is_space (B @ '' ) }'') = B @ '' ) }''"
    using B b by (simp add: is_digit_not_space)
  have 2: "takeWhile is_num_char (B @ '' ) }'') = B"
    using takeWhile_all_then [OF all space_not_num_char, of "'') }''"] by simp
  have 3: "dropWhile is_num_char (B @ '' ) }'') = '' ) }''"
    using dropWhile_all_then [OF all space_not_num_char, of "'') }''"] by simp
  have 4: "dropWhile is_space ''..'' = ''..''" by (simp add: is_space_def)
  have 5: "dropWhile is_space '' ) }'' = '') }''" by (simp add: is_space_def)
  have "match_tail (CHR ''.'' # CHR ''.'' # B @ '' ) }'') = Some B"
    unfolding match_tail_def using 1 2 3 5 B
    by (simp add: is_space_def Let_def)
  then show ?thesis by simp
qed

lemma match_range_at_bounds:
  assumes A: "bound_text A" and B: "bound_text B"
  shows "match_range_at ('' '' @ A @ ''..'' @ B @ '' ) }'') = Some (A, B)"
proof -
  let ?s = "A @ ''..'' @ B @ '' ) }''"
  let ?N = "A @ ''..'' @ B"
  from A obtain a A' where Aeq: "A = a # A'" and a: "is_digit a"
    by (cases A) (auto simp: bound_text_def)
  from A B have allN: "list_all is_num_char ?N"
    by (simp add: bound_text_def dot_num_char)
  have sp: "is_space CHR '' ''" by (simp add: is_space_def)
  have s1: "dropWhile is_space ('' '' @ ?s) = ?s"
    using Aeq a sp by (simp add: is_digit_not_space)
  have tw: "takeWhile is_num_char ?s = ?N"
    using takeWhile_all_then [OF allN space_not_num_char, of "'') }''"] by simp
  have found: "match_tail (drop (length A) ?s) = Some B"
    using match_tail_bound [OF B] by simp
  have none: "match_tail (drop j ?s) = None" if "length A < j" and "j \<le> length ?N" for j
  proof -
    define i where "i = j - Suc (length A)"
    from that have j: "j = length A + Suc i" and i: "i \<le> Suc (length B)"
      by (simp_all add: i_def)
    show ?thesis
    proof (cases i)
      case 0
      from B obtain b B' where "B = b # B'" and "is_digit b"
        by (cases B) (auto simp: bound_text_def)
      with j 0 show ?thesis by (simp add: match_tail_dot_digit)
    next
      case (Suc i')
      show ?thesis
      proof (cases "i' < length B")
        case True
        from B have "well_dotted B" by (simp add: bound_text_def)
        from match_tail_well_dotted [OF this True, of "'' ) }''"] j Suc True show ?thesis
          by simp
      next
        case False
        with i Suc have "i' = length B" by simp
        with j Suc show ?thesis by (simp add: match_tail_def is_space_def)
      qed
    qed
  qed
  have "match_group1 (length ?N) ?s = Some (take (length A) ?s, B)"
    using Aeq by (intro match_group1_found found none) simp_all
  with s1 tw show ?thesis
    by (simp add: match_range_at_def Let_def del: append.simps)
qed

lemma re_search_range_prefix:
  "CHR ''('' \<notin> set P \<Longrightarrow>
   re_search_range (P @ CHR ''('' # S)
     = (case match_range_at S of Some m \<Rightarrow> Some m | None \<Rightarrow> re_search_range S)"
  by (induction P) auto

lemma re_search_range_bounds:
  assumes "bound_text A" and "bound_text B" and "CHR ''('' \<notin> set P"
  shows "re_search_range (P @ ''( '' @ A @ ''..'' @ B @ '' ) }'') = Some (A, B)"
  using re_search_range_prefix [OF assms(3), of "'' '' @ A @ ''..'' @ B @ '' ) }''"]
        match_range_at_bounds [OF assms(1,2)]
  by simp

lemma bound_text_str_nat: "bound_text (str_nat n)"
proof -
  have d: "list_all is_digit (str_nat n)" by (rule str_nat_digits)
  have ne: "str_nat n \<noteq> []" by (rule str_nat_not_Nil)
  from d ne have "is_digit (hd (str_nat n))" by (cases "str_nat n") auto
  moreover from d have "list_all is_num_char (str_nat n)"
    by (simp add: list_all_iff is_digit_num_char)
  ultimately show ?thesis
    using d ne by (simp add: bound_text_def digits_well_dotted)
qed

subsection \<open>Tests of the synthesizer on a range text\<close>

lemma strip_id:
  assumes "t \<noteq> []" and "\<not> is_space (hd t)" and "\<not> is_space (last t)"
  shows "strip t = t"
proof -
  from assms(1,2) have 1: "dropWhile is_space t = t" by (cases t) auto
  from assms(1,3) have 2: "dropWhile is_space (rev t) = rev t"
    by (cases "rev t") (auto simp: hd_rev [symmetric] simp del: hd_rev)
  show ?thesis by (simp add: strip_def 1 2)
qed

lemma startswith_append: "startswith (p @ ys) p"
  by (induction p) auto

lemma contains_mid: "contains (xs @ sub @ ys) sub"
proof (induction xs)
  case Nil
  show ?case by (cases "sub @ ys") (use startswith_append [of sub ys] in auto)
next
  case (Cons x xs)
  then show ?case by simp
qed

lemma not_contains_char: "c \<notin> set s \<Longrightarrow> \<not> contains s (c # r)"
  by (induction s) auto

lemma integer_range_text_tail:
  "integer_range_text (int a) (int b) = ''Integer'' @ range_tail (str_nat a) (str_nat b)"
  by (simp add: integer_range_text_def range_tail_def str_int_def)

lemma range_tail_search:
  assumes "bound_text A" and "bound_text B" and "CHR ''('' \<notin> set H"
  shows "re_search_range (H @ range_tail A B) = Some (A, B)"
  using re_search_range_bounds [OF assms(1,2), of "H @ '' { x | x in ''"] assms(3)
  by (simp add: range_tail_def)

lemma range_tail_dots: "contains (H @ range_tail A B) ''..''"
  using contains_mid [of "H @ '' { x | x in ( '' @ A" "''..''" "B @ '' ) }''"]
  by (simp add: range_tail_def)

lemma bound_text_chars: "bound_text A \<Longrightarrow> c \<in> set A \<Longrightarrow> is_num_char c"
  by (simp add: bound_text_def list_all_iff)

lemma range_tail_no_F:
  assumes "bound_text A" and "bound_text B"
  shows "CHR ''F'' \<notin> set (range_tail A B)"
proof -
  have "\<not> is_num_char CHR ''F''" by (simp add: is_num_char_def is_digit_def)
  with assms have "CHR ''F'' \<notin> set A" "CHR ''F'' \<notin> set B"
    by (auto dest: bound_text_chars)
  then show ?thesis by (simp add: range_tail_def)
qed

lemma range_tail_last: "last (H @ range_tail A B) = CHR ''}''"
  by (simp add: range_tail_def)

text \<open>The synthesizer on the text of an Integer range.\<close>

lemma value_for_type_rec_integer_range:
  assumes A: "bound_text A" and B: "bound_text B"
  shows "value_for_type_rec (Suc d) reg (''Integer'' @ range_tail A B) =
     (case py_float A of
        Inl e \<Rightarrow> raise e
      | Inr low \<Rightarrow>
          (case py_float B of
             Inl e \<Rightarrow> raise e
           | Inr high \<Rightarrow> bind_gen (randint (py_int low) (py_int high)) (\<lambda>n. ret (str_int n))))"
proof -
  define t where "t = ''Integer'' @ range_tail A B"
  have ne: "t \<noteq> []" and h: "hd t = CHR ''I''" by (simp_all add: t_def)
  have l: "last t = CHR ''}''" unfolding t_def by (rule range_tail_last)
  have st: "strip t = t"
    by (rule strip_id) (simp_all add: ne h l is_space_def)
  have c1: "\<not> startswith t ''_''" "t \<noteq> ''String''" "t \<noteq> ''Integer''" "t \<noteq> ''Float''"
    "t \<noteq> ''Boolean''" "t \<noteq> ''URL''" "t \<noteq> ''Percentage''"
    "\<not> startswith t ''String { x | x in {''"
    "\<not> startswith t ''Integer { x | x in {''"
    "contains t ''x | x in (''"
    by (simp_all add: t_def range_tail_def)
  have c2: "contains t ''..''" unfolding t_def by (rule range_tail_dots)
  have c3: "\<not> contains t ''Float''"
    unfolding t_def using range_tail_no_F [OF A B] by (intro not_contains_char) simp
  have se: "re_search_range t = Some (A, B)"
    unfolding t_def by (rule range_tail_search [OF A B]) simp
  show ?thesis
    unfolding t_def [symmetric]
    by (simp add: value_for_type_rec.simps(2) Let_def st c1 c2 c3 se split: sum.split)
qed

lemma py_int_of_nat: "py_int (of_nat n) = int n"
  by (simp add: py_int_def)

lemma value_for_type_rec_integer_range_text:
  "value_for_type_rec (Suc d) reg (integer_range_text (int a) (int b))
     = bind_gen (randint (int a) (int b)) (\<lambda>n. ret (str_int n))"
  unfolding integer_range_text_tail
    value_for_type_rec_integer_range [OF bound_text_str_nat bound_text_str_nat]
  by (simp add: py_float_str_nat py_int_of_nat)

lemma value_for_type_integer_range:
  "value_for_type reg (integer_range_text (int a) (int b))
     = bind_gen (randint (int a) (int b)) (\<lambda>n. ret (str_int n))"
  by (simp only: value_for_type_def value_for_type_rec_numeral
        value_for_type_rec_integer_range_text)

lemma digit_char_0: "digit_char 0 = CHR ''0''"
  by (simp add: digit_char_def)

lemma tenths_split: "(q * 10 + r) / 10 - q = r / (10 :: rat)"
  by (simp add: field_simps)

lemma of_nat_div_mod_10: "(of_nat k :: rat) = of_nat (k div 10) * 10 + of_nat (k mod 10)"
proof -
  have "of_nat k = (of_nat (k div 10 * 10 + k mod 10) :: rat)" by simp
  also have "\<dots> = of_nat (k div 10) * 10 + of_nat (k mod 10)"
    by (simp only: of_nat_add of_nat_mult of_nat_numeral)
  finally show ?thesis .
qed

lemma frac_digits_zero: "frac_digits n 0 = []"
  by (cases n) simp_all

lemma frac_digits_tenth:
  assumes "r \<noteq> 0"
  shows "frac_digits 17 (of_nat r / 10) = [digit_char r]"
proof -
  have a: "(of_nat r / 10 :: rat) * 10 = of_nat r" by simp
  have nz: "(of_nat r / 10 :: rat) \<noteq> 0" using assms by simp
  have "frac_digits 17 (of_nat r / 10)
      = digit_char (nat \<lfloor>(of_nat r / 10 :: rat) * 10\<rfloor>)
        # frac_digits (pred_numeral (num.Bit1 (num.Bit0 (num.Bit0 (num.Bit0 num.One)))))
            ((of_nat r / 10 :: rat) * 10 - of_int \<lfloor>(of_nat r / 10 :: rat) * 10\<rfloor>)"
    using nz by (simp only: frac_digits_unfold if_False)
  also have "\<dots> = [digit_char r]"
    unfolding a by (simp add: frac_digits_zero)
  finally show ?thesis .
qed

lemma floor_tenths: "\<lfloor>of_nat k / 10 :: rat\<rfloor> = int (k div 10)"
  using floor_divide_of_nat_eq [of k 10, where ?'a = rat] by simp

lemma frac_tenths: "(of_nat k / 10 :: rat) - of_int (int (k div 10)) = of_nat (k mod 10) / 10"
proof -
  have "(of_nat k / 10 :: rat) - of_int (int (k div 10))
      = (of_nat (k div 10) * 10 + of_nat (k mod 10)) / 10 - of_nat (k div 10)"
    by (simp only: of_int_of_nat_eq of_nat_div_mod_10 [symmetric])
  also have "\<dots> = of_nat (k mod 10) / 10"
    by (rule tenths_split)
  finally show ?thesis .
qed


lemma str_float_tenths:
  "str_float (of_nat k / 10) = str_nat (k div 10) @ ''.'' @ [digit_char (k mod 10)]"
proof -
  let ?x = "of_nat k / 10 :: rat"
  have nn: "\<not> ?x < 0" "\<bar>?x\<bar> = ?x" by simp_all
  have z: "(of_nat (k mod 10) / 10 :: rat) = 0 \<longleftrightarrow> k mod 10 = 0" by simp
  have "str_float ?x = str_nat (k div 10) @ ''.''
          @ (if k mod 10 = 0 then ''0'' else frac_digits 17 (of_nat (k mod 10) / 10))"
    unfolding str_float_unfold nn floor_tenths frac_tenths z by simp
  also have "\<dots> = str_nat (k div 10) @ ''.'' @ [digit_char (k mod 10)]"
    by (simp add: frac_digits_tenth digit_char_0)
  finally show ?thesis .
qed

lemma bound_text_str_float_tenths: "bound_text (str_float (of_nat k / 10))"
proof -
  let ?I = "str_nat (k div 10)"
  let ?d = "digit_char (k mod 10)"
  have d: "list_all is_digit ?I" by (rule str_nat_digits)
  obtain c I' where I: "?I = c # I'" using str_nat_not_Nil [of "k div 10"] by (cases ?I) auto
  with d have c: "is_digit c" by simp
  have wd: "well_dotted (I @ ''.'' @ [?d])" if "list_all is_digit I" for I
    using that by (induction I rule: well_dotted.induct) (auto simp: is_digit_digit_char)
  have "list_all is_num_char (?I @ ''.'' @ [?d])"
    using d by (simp add: list_all_iff is_digit_num_char is_digit_digit_char dot_num_char)
  with wd [OF d] I c show ?thesis
    by (simp add: bound_text_def str_float_tenths)
qed

lemma py_float_str_float_tenths: "py_float (str_float (of_nat k / 10)) = Inr (of_nat k / 10)"
proof -
  let ?I = "str_nat (k div 10)"
  let ?d = "digit_char (k mod 10)"
  have d: "list_all is_digit ?I" by (rule str_nat_digits)
  have nd: "\<not> is_digit CHR ''.''" by (simp add: is_digit_def)
  have tw: "takeWhile is_digit (?I @ CHR ''.'' # [?d]) = ?I"
    by (rule takeWhile_all_then [OF d nd])
  have dw: "dropWhile is_digit (?I @ CHR ''.'' # [?d]) = CHR ''.'' # [?d]"
    by (rule dropWhile_all_then [OF d nd])
  have dv: "digits_val [?d] = k mod 10"
    by (simp add: digits_val_def digit_val_digit_char)
  have v: "(of_nat (k div 10) :: rat) + of_nat (k mod 10) / 10 = of_nat k / 10"
    by (subst (3) of_nat_div_mod_10) (simp add: field_simps)
  have "py_float (?I @ CHR ''.'' # [?d]) = Inr (of_nat k / 10)"
    unfolding py_float_def Let_def tw dw
    by (simp add: is_digit_digit_char dv digits_val_str_nat v)
  then show ?thesis by (simp add: str_float_tenths)
qed

lemma float_range_text_tail:
  "float_range_text lo hi = ''Float'' @ range_tail (str_float lo) (str_float hi)"
  by (simp add: float_range_text_def range_tail_def)

lemma value_for_type_rec_float_range:
  assumes A: "bound_text A" and B: "bound_text B"
  shows "value_for_type_rec (Suc d) reg (''Float'' @ range_tail A B) =
     (case py_float A of
        Inl e \<Rightarrow> raise e
      | Inr low \<Rightarrow>
          (case py_float B of
             Inl e \<Rightarrow> raise e
           | Inr high \<Rightarrow> bind_gen (uniform low high) (\<lambda>x. ret (str_float (py_round x 2)))))"
proof -
  define t where "t = ''Float'' @ range_tail A B"
  have ne: "t \<noteq> []" and h: "hd t = CHR ''F''" by (simp_all add: t_def)
  have l: "last t = CHR ''}''" unfolding t_def by (rule range_tail_last)
  have st: "strip t = t"
    by (rule strip_id) (simp_all add: ne h l is_space_def)
  have c1: "\<not> startswith t ''_''" "t \<noteq> ''String''" "t \<noteq> ''Integer''" "t \<noteq> ''Float''"
    "t \<noteq> ''Boolean''" "t \<noteq> ''URL''" "t \<noteq> ''Percentage''"
    "\<not> startswith t ''String { x | x in {''"
    "\<not> startswith t ''Integer { x | x in {''"
    "contains t ''x | x in (''"
    "contains t ''Float''"
    by (simp_all add: t_def range_tail_def)
  have c2: "contains t ''..''" unfolding t_def by (rule range_tail_dots)
  have se: "re_search_range t = Some (A, B)"
    unfolding t_def by (rule range_tail_search [OF A B]) simp
  show ?thesis
    unfolding t_def [symmetric]
    by (simp add: value_for_type_rec.simps(2) Let_def st c1 c2 se split: sum.split)
qed

lemma value_for_type_float_range:
  "value_for_type reg (float_range_text (of_nat k / 10) (of_nat l / 10))
     = bind_gen (uniform (of_nat k / 10) (of_nat l / 10)) (\<lambda>x. ret (str_float (py_round x 2)))"
proof -
  have "value_for_type_rec (Suc d) reg (float_range_text (of_nat k / 10) (of_nat l / 10))
     = bind_gen (uniform (of_nat k / 10) (of_nat l / 10)) (\<lambda>x. ret (str_float (py_round x 2)))"
    for d
    unfolding float_range_text_tail
      value_for_type_rec_float_range [OF bound_text_str_float_tenths bound_text_str_float_tenths]
    by (simp add: py_float_str_float_tenths)
  then show ?thesis
    by (simp only: value_for_type_def value_for_type_rec_numeral)
qed


subsection \<open>Values for the ranges that \<^verbatim>\<open>range_type\<close> writes\<close>

lemma bind_gen_Inr:
  "bind_gen m f g = Inr (y, g2) \<Longrightarrow> \<exists>x g1. m g = Inr (x, g1) \<and> f x g1 = Inr (y, g2)"
  by (auto simp: bind_gen_def split: sum.splits)

lemma yields_Inr: "yields m P \<Longrightarrow> m g = Inr (x, g') \<Longrightarrow> P x"
  using yields_post [of m P] by (auto simp: post_def)

lemma integer_range_value:
  assumes "a \<le> b"
  shows "\<exists>n g'. value_for_type reg (integer_range_text (int a) (int b)) g = Inr (str_int n, g')
           \<and> int a \<le> n \<and> n \<le> int b"
proof -
  from assms have "yields (randint (int a) (int b)) (\<lambda>r. int a \<le> r \<and> r \<le> int b)"
    by (intro yields_randint) simp
  then obtain n g' where "randint (int a) (int b) g = Inr (n, g')" "int a \<le> n" "n \<le> int b"
    unfolding yields_def by blast
  then show ?thesis
    by (auto simp: value_for_type_integer_range bind_gen_def ret_def)
qed

lemma float_range_value:
  assumes "k \<le> l"
  shows "\<exists>v g'. value_for_type reg (float_range_text (of_nat k / 10) (of_nat l / 10)) g
                 = Inr (str_float v, g')
           \<and> of_nat k / 10 \<le> v \<and> v \<le> of_nat l / 10"
proof -
  from assms have "(of_nat k / 10 :: rat) \<le> of_nat l / 10" by simp
  from yields_uniform [OF this]
  obtain x g' where u: "uniform (of_nat k / 10) (of_nat l / 10) g = Inr (x, g')"
    and x: "of_nat k / 10 \<le> x" "x \<le> of_nat l / 10"
    unfolding yields_def by blast
  have "of_int (int (10 * k)) / 10 ^ 2 \<le> x" "x \<le> of_int (int (10 * l)) / 10 ^ 2"
    using x by simp_all
  from py_round_bounds [OF this]
  have "of_nat k / 10 \<le> py_round x 2 \<and> py_round x 2 \<le> of_nat l / 10" by simp
  with u show ?thesis
    by (auto simp: value_for_type_float_range bind_gen_def ret_def)
qed

lemma py_round_tenths:
  assumes "of_int lo \<le> x" and "x \<le> of_int hi" and "0 \<le> lo"
  shows "\<exists>k. py_round x 1 = of_nat k / 10 \<and> nat (10 * lo) \<le> k \<and> k \<le> nat (10 * hi)"
proof -
  have "of_int (10 * lo) / 10 ^ 1 \<le> x" "x \<le> of_int (10 * hi) / 10 ^ 1"
    using assms by simp_all
  then have ge: "10 * lo \<le> round_half_even (x * 10 ^ 1)"
    and le: "round_half_even (x * 10 ^ 1) \<le> 10 * hi"
    by (auto intro!: round_half_even_ge round_half_even_le simp: field_simps)
  define k where "k = nat (round_half_even (x * 10 ^ 1))"
  from ge assms(3) have "of_int (round_half_even (x * 10 ^ 1)) = (of_nat k :: rat)"
    by (simp add: k_def)
  then have "py_round x 1 = of_nat k / 10"
    by (simp add: py_round_def)
  moreover from ge le have "nat (10 * lo) \<le> k" "k \<le> nat (10 * hi)"
    by (simp_all add: k_def)
  ultimately show ?thesis by blast
qed

text \<open>
  C3, as the code has it. For every range descriptor that \<^verbatim>\<open>range_type\<close> writes, Integer
  or Float, with the bounds \<open>low\<close> and \<open>high\<close> printed in it, \<^verbatim>\<open>value_for_type\<close> returns,
  whatever the alias registry and the state of the randomness source, the text of a
  number \<open>v\<close> with \<open>low \<le> v \<le> high\<close>: the interval is closed.
\<close>

theorem range_value_within_bounds:
  "range_type g = Inr (t, g1) \<longrightarrow>
     (\<exists>low high. t = integer_range_text low high
        \<and> (\<forall>reg g2. \<exists>n g3. value_for_type reg t g2 = Inr (str_int n, g3)
                        \<and> low \<le> n \<and> n \<le> high))
     \<or> (\<exists>low high. t = float_range_text low high
        \<and> (\<forall>reg g2. \<exists>v g3. value_for_type reg t g2 = Inr (str_float v, g3)
                        \<and> low \<le> v \<and> v \<le> high))"
proof
  assume "range_type g = Inr (t, g1)"
  then obtain r :: rat and ga where
    body: "(if r < 1 / 2 then
         bind_gen (uniform 0 50) (\<lambda>x.
         bind_gen (uniform 60 100) (\<lambda>y.
         ret (float_range_text (py_round x 1) (py_round y 1))))
       else
         bind_gen (randint 0 50) (\<lambda>low.
         bind_gen (randint 60 1000) (\<lambda>high.
         ret (integer_range_text low high)))) ga = Inr (t, g1)"
    unfolding range_type_def by (blast dest: bind_gen_Inr)
  show "(\<exists>low high. t = integer_range_text low high
        \<and> (\<forall>reg g2. \<exists>n g3. value_for_type reg t g2 = Inr (str_int n, g3)
                        \<and> low \<le> n \<and> n \<le> high))
     \<or> (\<exists>low high. t = float_range_text low high
        \<and> (\<forall>reg g2. \<exists>v g3. value_for_type reg t g2 = Inr (str_float v, g3)
                        \<and> low \<le> v \<and> v \<le> high))"
  proof (cases "r < 1 / 2")
    case True
    with body obtain x gb y gc where
      x: "uniform 0 50 ga = Inr (x, gb)" and y: "uniform 60 100 gb = Inr (y, gc)"
      and t: "t = float_range_text (py_round x 1) (py_round y 1)"
      by (auto dest!: bind_gen_Inr simp: ret_def)
    have "0 \<le> x \<and> x \<le> 50" using yields_Inr [OF yields_uniform x] by simp
    then have "of_int 0 \<le> x" "x \<le> of_int 50" by simp_all
    from py_round_tenths [OF this]
    obtain k where k: "py_round x 1 = of_nat k / 10" "k \<le> 500" by auto
    have "60 \<le> y \<and> y \<le> 100" using yields_Inr [OF yields_uniform y] by simp
    then have "of_int 60 \<le> y" "y \<le> of_int 100" by simp_all
    from py_round_tenths [OF this]
    obtain l where l: "py_round y 1 = of_nat l / 10" "600 \<le> l" by auto
    from k l have kl: "k \<le> l" by simp
    have tt: "t = float_range_text (of_nat k / 10) (of_nat l / 10)"
      unfolding t k(1) l(1) ..
    have "\<forall>reg g2. \<exists>v g3. value_for_type reg t g2 = Inr (str_float v, g3)
            \<and> of_nat k / 10 \<le> v \<and> v \<le> of_nat l / 10"
      unfolding tt using float_range_value [OF kl] by blast
    with tt show ?thesis
      by (intro disjI2 exI [of _ "of_nat k / 10"] exI [of _ "of_nat l / 10"] conjI)
  next
    case False
    with body obtain lo gb hi gc where
      lo: "randint 0 50 ga = Inr (lo, gb)" and hi: "randint 60 1000 gb = Inr (hi, gc)"
      and t: "t = integer_range_text lo hi"
      by (auto dest!: bind_gen_Inr simp: ret_def)
    have a: "0 \<le> lo \<and> lo \<le> 50" using yields_Inr [OF yields_randint lo] by simp
    have b: "60 \<le> hi \<and> hi \<le> 1000" using yields_Inr [OF yields_randint hi] by simp
    from a b have e: "int (nat lo) = lo" "int (nat hi) = hi"
      by simp_all
    from a b have le: "nat lo \<le> nat hi"
      by arith
    have "\<forall>reg g2. \<exists>n g3. value_for_type reg t g2 = Inr (str_int n, g3) \<and> lo \<le> n \<and> n \<le> hi"
      unfolding t using integer_range_value [OF le] unfolding e by blast
    with t show ?thesis
      by (intro disjI1 exI [of _ lo] exI [of _ hi] conjI)
  qed
qed

lemma range_texts:
  "integer_range_text 0 60 = ''Integer { x | x in ( 0..60 ) }''"
  "float_range_text 0 60 = ''Float { x | x in ( 0.0..60.0 ) }''"
  by (simp_all add: integer_range_text_def float_range_text_def str_int_def text_eval)

lemma range_type_draws:
  "range_type [4503599627370496, 0, 0] = Inr (''Integer { x | x in ( 0..60 ) }'', [])"
  "range_type [0, 0, 0] = Inr (''Float { x | x in ( 0.0..60.0 ) }'', [])"
  by (simp_all add: range_type_def gen_eval round_half_even_unfold range_texts)

lemma range_values:
  "value_for_type reg ''Integer { x | x in ( 0..60 ) }''
     = bind_gen (randint 0 60) (\<lambda>n. ret (str_int n))"
  "value_for_type reg ''Float { x | x in ( 0.0..60.0 ) }''
     = bind_gen (uniform 0 60) (\<lambda>x. ret (str_float (py_round x 2)))"
  using value_for_type_integer_range [of reg 0 60] value_for_type_float_range [of reg 0 600]
  by (simp_all add: range_texts)

theorem range_value_within_bounds_witness:
  "range_type [4503599627370496, 0, 0] = Inr (''Integer { x | x in ( 0..60 ) }'', [])
   \<and> ((\<exists>low high. ''Integer { x | x in ( 0..60 ) }'' = integer_range_text low high
          \<and> (\<forall>reg g2. \<exists>n g3.
                 value_for_type reg ''Integer { x | x in ( 0..60 ) }'' g2 = Inr (str_int n, g3)
                 \<and> low \<le> n \<and> n \<le> high))
      \<or> (\<exists>low high. ''Integer { x | x in ( 0..60 ) }'' = float_range_text low high
          \<and> (\<forall>reg g2. \<exists>v g3.
                 value_for_type reg ''Integer { x | x in ( 0..60 ) }'' g2 = Inr (str_float v, g3)
                 \<and> low \<le> v \<and> v \<le> high)))"
  using range_value_within_bounds [of "[4503599627370496, 0, 0]" "''Integer { x | x in ( 0..60 ) }''" "[]"]
  by (simp add: range_type_draws)

text \<open>
  C3 as stated excludes the bounds. \<^verbatim>\<open>range_type\<close> writes the descriptors
  \<^verbatim>\<open>Integer { x | x in ( 0..60 ) }\<close> and \<^verbatim>\<open>Float { x | x in ( 0.0..60.0 ) }\<close> (on draws of the
  least values), and for them \<^verbatim>\<open>value_for_type\<close> returns \<^verbatim>\<open>0\<close> and \<^verbatim>\<open>60\<close>, \<^verbatim>\<open>0.0\<close> and
  \<^verbatim>\<open>60.0\<close>: \<^verbatim>\<open>randint\<close> includes both ends, \<^verbatim>\<open>uniform\<close> starts at the low end, and rounding
  to two decimals reaches the high end. The draws are \<open>2\<^sup>5\<^sup>2\<close> (\<^verbatim>\<open>random()\<close> gives 0.5) and
  \<open>2\<^sup>5\<^sup>3 - 1\<close> (the greatest value of \<^verbatim>\<open>random()\<close>).
\<close>

theorem range_value_bound_counterexample:
  "range_type [4503599627370496, 0, 0] = Inr (''Integer { x | x in ( 0..60 ) }'', [])
   \<and> value_for_type [] ''Integer { x | x in ( 0..60 ) }'' [0] = Inr (''0'', [])
   \<and> value_for_type [] ''Integer { x | x in ( 0..60 ) }'' [60] = Inr (''60'', [])
   \<and> range_type [0, 0, 0] = Inr (''Float { x | x in ( 0.0..60.0 ) }'', [])
   \<and> value_for_type [] ''Float { x | x in ( 0.0..60.0 ) }'' [0] = Inr (''0.0'', [])
   \<and> value_for_type [] ''Float { x | x in ( 0.0..60.0 ) }'' [9007199254740991] = Inr (''60.0'', [])"
  by (simp add: range_type_draws range_values gen_eval str_int_def text_eval)

end
